theory Spec2Isabelle
  imports Main
begin

section \<open>Data model (the Prisma schema)\<close>

datatype Role = ADMIN | USER

datatype ItemStatus = AVAILABLE | IN_CALIBRATION | RENTED | IN_MAINTENANCE

datatype RequestStatus = PENDING | APPROVED | REJECTED | COMPLETED | CANCELLED

datatype ActivityType =
    LOGIN
  | ITEM_CREATED | ITEM_UPDATED | ITEM_DELETED
  | CALIBRATION_CREATED | CALIBRATION_UPDATED | CALIBRATION_DELETED
  | MAINTENANCE_CREATED | MAINTENANCE_UPDATED | MAINTENANCE_DELETED
  | RENTAL_CREATED | RENTAL_UPDATED | RENTAL_DELETED
  | USER_CREATED | USER_UPDATED | USER_DELETED
  | CUSTOMER_CREATED | CUSTOMER_UPDATED | CUSTOMER_DELETED
  | REMINDER_CREATED | NOTIFICATION_CREATED

text \<open>A \<open>DateTime\<close> is a point on the clock; \<open>new Date()\<close> reads the
  parameter \<open>now\<close> of the handler.\<close>

type_synonym DateTime = nat

text \<open>Of each table, the columns that the rental route handlers read or write.\<close>

record Item =
  serialNumber :: string
  item_name :: string
  item_status :: ItemStatus

record Rental =
  rental_id :: string
  itemSerial :: string
  userId :: string
  customerId :: "string option"
  poNumber :: "string option"
  doNumber :: "string option"
  rental_status :: RequestStatus
  startDate :: DateTime
  endDate :: "DateTime option"
  returnDate :: "DateTime option"
  renterName :: "string option"
  renterPhone :: "string option"
  renterAddress :: "string option"
  initialCondition :: "string option"
  returnCondition :: "string option"

record RentalStatusLog =
  sl_rentalId :: string
  sl_status :: RequestStatus
  sl_notes :: "string option"
  sl_userId :: string
  sl_createdAt :: DateTime

record ActivityLog =
  al_type :: ActivityType
  al_action :: string
  al_userId :: string
  al_itemSerial :: "string option"
  al_rentalId :: "string option"
  al_affectedUserId :: "string option"
  al_customerId :: "string option"
  al_createdAt :: DateTime

record ItemHistory =
  ih_itemSerial :: string
  ih_action :: string
  ih_relatedId :: "string option"
  ih_endDate :: "DateTime option"

text \<open>The database: the keyed tables as maps, the append-only tables as lists in
  insertion order, and the ids of the User and Customer rows, which the foreign keys of
  the other tables refer to.\<close>

record store =
  items :: "string \<rightharpoonup> Item"
  rentals :: "string \<rightharpoonup> Rental"
  rentalStatusLogs :: "RentalStatusLog list"
  activityLogs :: "ActivityLog list"
  itemHistories :: "ItemHistory list"
  users :: "string set"
  customers :: "string set"

section \<open>JavaScript values\<close>

text \<open>A field of a JSON body is a string or absent. \<open>truthy\<close> is the test of
  \<open>if (x)\<close> and \<open>!x\<close>: an absent field and the empty string are falsy.
  \<open>or_else x d\<close> is \<open>x || d\<close>, and \<open>template\<close> is the interpolation of a field in a template literal.\<close>

definition truthy :: "string option \<Rightarrow> bool" where
  "truthy x = (case x of None \<Rightarrow> False | Some v \<Rightarrow> v \<noteq> [])"

definition or_else :: "string option \<Rightarrow> string \<Rightarrow> string" where
  "or_else x d = (case x of None \<Rightarrow> d | Some v \<Rightarrow> if v = [] then d else v)"

definition or_null :: "string option \<Rightarrow> string option" where
  "or_null x = (if truthy x then x else None)"

definition template :: "string option \<Rightarrow> string" where
  "template x = (case x of None \<Rightarrow> ''undefined'' | Some v \<Rightarrow> v)"

text \<open>The enum \<open>RequestStatus\<close> on the wire: the name of a value, and the value a
  string names (Prisma refuses any other string).\<close>

fun RequestStatus_name :: "RequestStatus \<Rightarrow> string" where
  "RequestStatus_name PENDING = ''PENDING''"
| "RequestStatus_name APPROVED = ''APPROVED''"
| "RequestStatus_name REJECTED = ''REJECTED''"
| "RequestStatus_name COMPLETED = ''COMPLETED''"
| "RequestStatus_name CANCELLED = ''CANCELLED''"

definition RequestStatus_of :: "string \<Rightarrow> RequestStatus option" where
  "RequestStatus_of v =
     (if v = ''PENDING'' then Some PENDING
      else if v = ''APPROVED'' then Some APPROVED
      else if v = ''REJECTED'' then Some REJECTED
      else if v = ''COMPLETED'' then Some COMPLETED
      else if v = ''CANCELLED'' then Some CANCELLED
      else None)"

section \<open>Database calls\<close>

text \<open>What a Prisma call or the handler's own code can throw.\<close>

datatype exn =
    PrismaValidationError
  | RecordNotFound
  | ForeignKeyViolation
  | UniqueConstraintViolation
  | TypeError
  | ServiceError

text \<open>A call on the database returns a value or throws, and leaves a store behind in
  both cases: the writes made before a throw stay, unless a transaction undoes them.\<close>

type_synonym 'a db = "store \<Rightarrow> (exn + 'a) \<times> store"

definition ret :: "'a \<Rightarrow> 'a db" where
  "ret x s = (Inr x, s)"

definition throw :: "exn \<Rightarrow> 'a db" where
  "throw e s = (Inl e, s)"

text \<open>\<open>await m; f\<close>: a throw of \<open>m\<close> skips \<open>f\<close>.\<close>

definition bind :: "'a db \<Rightarrow> ('a \<Rightarrow> 'b db) \<Rightarrow> 'b db" where
  "bind m f s = (case m s of (Inl e, s') \<Rightarrow> (Inl e, s') | (Inr x, s') \<Rightarrow> f x s')"

text \<open>\<open>prisma.$transaction(async (tx) => body)\<close>: the writes of the body are
  committed when it returns and undone when it throws; the exception is thrown on.\<close>

definition transaction :: "'a db \<Rightarrow> 'a db" where
  "transaction body s = (case body s of (Inl e, _) \<Rightarrow> (Inl e, s) | (Inr x, s') \<Rightarrow> (Inr x, s'))"

text \<open>\<open>prisma.rental.findUnique({ where: { id }, include: { item: true } })\<close>\<close>

definition rental_findUnique :: "store \<Rightarrow> string \<Rightarrow> (Rental \<times> Item option) option" where
  "rental_findUnique s rid =
     (case rentals s rid of None \<Rightarrow> None | Some r \<Rightarrow> Some (r, items s (itemSerial r)))"

text \<open>The \<open>data\<close> of \<open>rental.update\<close>: a column that is not a key of the object keeps
  its value. \<open>poNumber\<close> and \<open>doNumber\<close> may be set to null.\<close>

record RentalUpdateInput =
  u_status :: "string option"
  u_poNumber :: "string option option"
  u_doNumber :: "string option option"
  u_startDate :: "DateTime option"
  u_endDate :: "DateTime option"
  u_returnDate :: "DateTime option"
  u_returnCondition :: "string option"

definition no_update :: RentalUpdateInput where
  "no_update = \<lparr>u_status = None, u_poNumber = None, u_doNumber = None, u_startDate = None,
     u_endDate = None, u_returnDate = None, u_returnCondition = None\<rparr>"

definition apply_update :: "RentalUpdateInput \<Rightarrow> RequestStatus option \<Rightarrow> Rental \<Rightarrow> Rental" where
  "apply_update d st r = r
     \<lparr>rental_status := (case st of None \<Rightarrow> rental_status r | Some v \<Rightarrow> v),
      poNumber := (case u_poNumber d of None \<Rightarrow> poNumber r | Some v \<Rightarrow> v),
      doNumber := (case u_doNumber d of None \<Rightarrow> doNumber r | Some v \<Rightarrow> v),
      startDate := (case u_startDate d of None \<Rightarrow> startDate r | Some v \<Rightarrow> v),
      endDate := (case u_endDate d of None \<Rightarrow> endDate r | Some v \<Rightarrow> Some v),
      returnDate := (case u_returnDate d of None \<Rightarrow> returnDate r | Some v \<Rightarrow> Some v),
      returnCondition :=
        (case u_returnCondition d of None \<Rightarrow> returnCondition r | Some v \<Rightarrow> Some v)\<rparr>"

text \<open>\<open>tx.rental.update({ where: { id }, data })\<close>: a status that is not a value of
  the enum is refused, a missing row is an error, and the updated row is returned.\<close>

definition rental_update :: "string \<Rightarrow> RentalUpdateInput \<Rightarrow> Rental db" where
  "rental_update rid d s =
     (if u_status d \<noteq> None \<and> RequestStatus_of (the (u_status d)) = None
      then (Inl PrismaValidationError, s)
      else case rentals s rid of
             None \<Rightarrow> (Inl RecordNotFound, s)
           | Some r \<Rightarrow>
               (let r' = apply_update d (case u_status d of None \<Rightarrow> None
                                         | Some v \<Rightarrow> RequestStatus_of v) r
                in (Inr r', s\<lparr>rentals := (rentals s)(rid \<mapsto> r')\<rparr>)))"

text \<open>\<open>tx.rental.create({ data })\<close>: the id is the generated uuid, which must be new;
  the item, the user and the customer (when given) must exist.\<close>

definition rental_create :: "Rental \<Rightarrow> Rental db" where
  "rental_create r s =
     (if rental_id r \<in> dom (rentals s) then (Inl UniqueConstraintViolation, s)
      else if itemSerial r \<notin> dom (items s) \<or> userId r \<notin> users s
              \<or> (case customerId r of None \<Rightarrow> False | Some c \<Rightarrow> c \<notin> customers s)
      then (Inl ForeignKeyViolation, s)
      else (Inr r, s\<lparr>rentals := (rentals s)(rental_id r \<mapsto> r)\<rparr>))"

text \<open>\<open>tx.rentalStatusLog.create({ data })\<close>: the status is a value of the enum, and the
  rental and the user must exist.\<close>

definition rentalStatusLog_create ::
  "string \<Rightarrow> string \<Rightarrow> string \<Rightarrow> string \<Rightarrow> DateTime \<Rightarrow> unit db" where
  "rentalStatusLog_create rid st uid notes now s =
     (case RequestStatus_of st of
        None \<Rightarrow> (Inl PrismaValidationError, s)
      | Some v \<Rightarrow>
          if rid \<notin> dom (rentals s) \<or> uid \<notin> users s then (Inl ForeignKeyViolation, s)
          else (Inr (), s\<lparr>rentalStatusLogs := rentalStatusLogs s @
                  [\<lparr>sl_rentalId = rid, sl_status = v, sl_notes = Some notes, sl_userId = uid,
                    sl_createdAt = now\<rparr>]\<rparr>))"

text \<open>\<open>tx.item.update({ where: { serialNumber }, data: { status } })\<close>\<close>

definition item_update :: "string \<Rightarrow> ItemStatus \<Rightarrow> unit db" where
  "item_update serial st s =
     (case items s serial of
        None \<Rightarrow> (Inl RecordNotFound, s)
      | Some i \<Rightarrow> (Inr (), s\<lparr>items := (items s)(serial \<mapsto> i\<lparr>item_status := st\<rparr>)\<rparr>))"

text \<open>\<open>tx.itemHistory.updateMany({ where: { itemSerial, action: 'RENTED', relatedId,
  endDate: null }, data: { endDate: new Date() } })\<close>\<close>

definition itemHistory_close :: "string \<Rightarrow> string \<Rightarrow> DateTime \<Rightarrow> ItemHistory \<Rightarrow> ItemHistory" where
  "itemHistory_close serial rid now h =
     (if ih_itemSerial h = serial \<and> ih_action h = ''RENTED'' \<and> ih_relatedId h = Some rid
         \<and> ih_endDate h = None
      then h\<lparr>ih_endDate := Some now\<rparr> else h)"

definition itemHistory_updateMany :: "string \<Rightarrow> string \<Rightarrow> DateTime \<Rightarrow> unit db" where
  "itemHistory_updateMany serial rid now s =
     (Inr (), s\<lparr>itemHistories := map (itemHistory_close serial rid now) (itemHistories s)\<rparr>)"

text \<open>\<open>tx.activityLog.create({ data })\<close>: the acting user must exist, and so must each
  row that a reference which is set points to.\<close>

definition fk_ok :: "string option \<Rightarrow> string set \<Rightarrow> bool" where
  "fk_ok ref keys = (case ref of None \<Rightarrow> True | Some k \<Rightarrow> k \<in> keys)"

definition activityLog_create :: "ActivityLog \<Rightarrow> unit db" where
  "activityLog_create a s =
     (if al_userId a \<in> users s \<and> fk_ok (al_itemSerial a) (dom (items s))
         \<and> fk_ok (al_rentalId a) (dom (rentals s)) \<and> fk_ok (al_affectedUserId a) (users s)
         \<and> fk_ok (al_customerId a) (customers s)
      then (Inr (), s\<lparr>activityLogs := activityLogs s @ [a]\<rparr>)
      else (Inl ForeignKeyViolation, s))"

section \<open>Requests and responses\<close>

text \<open>\<open>NextResponse.json({ error }, { status })\<close> and \<open>NextResponse.json(rental)\<close>.\<close>

datatype response = Json_error string nat | Json_ok Rental

text \<open>The user that \<open>getUserFromRequest\<close> finds in the request, if any.\<close>

record AuthUser =
  au_id :: string
  au_role :: Role

text \<open>Modelled from the spec: \<open>isAdmin\<close> of \<open>@/lib/auth\<close> is not among the sources; the
  caller is identified as USER or ADMIN.\<close>

definition isAdmin :: "AuthUser \<Rightarrow> bool" where
  "isAdmin u = (au_role u = ADMIN)"

text \<open>The payload that \<open>verifyAdmin\<close> returns for an administrator (null otherwise).\<close>

record AdminPayload =
  ap_userId :: string
  ap_name :: "string option"

text \<open>The calls made after the commit are functions of other modules: the instant
  notification (\<open>createInstantNotificationForReminder(id, type)\<close>), the reminder
  (\<open>handleRentalStatusChange(id, status)\<close>) and the activity logger
  (\<open>logRentalActivity(userId, type, rentalId, itemSerial, action)\<close>). The handlers
  take them as parameters: each may write to the store and may throw.\<close>

type_synonym notifier = "string \<Rightarrow> string \<Rightarrow> unit db"

type_synonym activity_logger =
  "string \<Rightarrow> ActivityType \<Rightarrow> string \<Rightarrow> string \<Rightarrow> string \<Rightarrow> unit db"

section \<open>PATCH /api/admin/rentals\<close>

record PatchBody =
  pb_id :: "string option"
  pb_status :: "string option"
  pb_notes :: "string option"
  pb_returnCondition :: "string option"

text \<open>The body of the transaction.\<close>

definition PATCH_rentals_tx ::
  "string \<Rightarrow> string \<Rightarrow> string option \<Rightarrow> string option \<Rightarrow> string \<Rightarrow> Rental \<Rightarrow> DateTime
     \<Rightarrow> Rental db" where
  "PATCH_rentals_tx rid st notes rc adminId currentRental now =
     bind (rental_update rid (no_update
             \<lparr>u_status := Some st,
              u_returnDate := (if st = ''COMPLETED'' \<and> returnDate currentRental = None
                               then Some now else None),
              u_returnCondition := (if truthy rc then rc else None)\<rparr>))
     (\<lambda>updated.
     bind (rentalStatusLog_create rid st adminId (or_else notes (''Status changed to '' @ st)) now)
     (\<lambda>_.
     bind (if st = ''APPROVED'' then ret (Some RENTED)
           else if st = ''COMPLETED'' then
             bind (itemHistory_updateMany (itemSerial currentRental) rid now)
                  (\<lambda>_. ret (Some AVAILABLE))
           else if st = ''REJECTED'' then ret (Some AVAILABLE)
           else ret None)
     (\<lambda>newItemStatus.
     bind (case newItemStatus of
             None \<Rightarrow> ret ()
           | Some v \<Rightarrow> item_update (itemSerial currentRental) v)
     (\<lambda>_.
     bind (activityLog_create
             \<lparr>al_type = RENTAL_UPDATED,
              al_action = ''Updated rental status to '' @ st,
              al_userId = adminId,
              al_itemSerial = Some (itemSerial currentRental),
              al_rentalId = Some rid,
              al_affectedUserId = Some (userId currentRental),
              al_customerId = None,
              al_createdAt = now\<rparr>)
     (\<lambda>_. ret updated)))))"

text \<open>The handler. The notification is started after the commit and not awaited; its
  rejection is caught and logged.\<close>

definition PATCH_rentals ::
  "notifier \<Rightarrow> AuthUser option \<Rightarrow> PatchBody \<Rightarrow> DateTime \<Rightarrow> store \<Rightarrow> response \<times> store" where
  "PATCH_rentals createInstantNotificationForReminder user body now s =
     (case user of
        None \<Rightarrow> (Json_error ''Unauthorized'' 401, s)
      | Some u \<Rightarrow>
          if \<not> isAdmin u then (Json_error ''Unauthorized'' 401, s)
          else if \<not> truthy (pb_id body) \<or> \<not> truthy (pb_status body)
          then (Json_error ''Missing required fields'' 400, s)
          else
            (let rid = the (pb_id body); st = the (pb_status body) in
             case rental_findUnique s rid of
               None \<Rightarrow> (Json_error ''Rental not found'' 404, s)
             | Some (currentRental, _) \<Rightarrow>
                 (case transaction (PATCH_rentals_tx rid st (pb_notes body)
                          (pb_returnCondition body) (au_id u) currentRental now) s of
                    (Inl e, s') \<Rightarrow> (Json_error ''Failed to update rental status'' 500, s')
                  | (Inr updatedRental, s') \<Rightarrow>
                      (Json_ok updatedRental,
                       if st = ''APPROVED''
                       then snd (createInstantNotificationForReminder rid ''RENTAL'' s')
                       else s'))))"

section \<open>POST /api/admin/rentals\<close>

record PostBody =
  qb_itemSerial :: "string option"
  qb_startDate :: "DateTime option"
  qb_endDate :: "DateTime option"
  qb_poNumber :: "string option"
  qb_doNumber :: "string option"
  qb_customerId :: "string option"
  qb_renterName :: "string option"
  qb_renterPhone :: "string option"
  qb_renterAddress :: "string option"
  qb_initialCondition :: "string option"

text \<open>The body of the transaction; \<open>uuid\<close> is the id the database generates for the
  new row.\<close>

definition POST_rentals_tx ::
  "string \<Rightarrow> string \<Rightarrow> PostBody \<Rightarrow> Item \<Rightarrow> string \<Rightarrow> DateTime \<Rightarrow> Rental db" where
  "POST_rentals_tx serial uid body item uuid now =
     bind (rental_create
             \<lparr>rental_id = uuid,
              itemSerial = serial,
              userId = uid,
              customerId = or_null (qb_customerId body),
              poNumber = qb_poNumber body,
              doNumber = qb_doNumber body,
              rental_status = APPROVED,
              startDate = the (qb_startDate body),
              endDate = qb_endDate body,
              returnDate = None,
              renterName = or_null (qb_renterName body),
              renterPhone = or_null (qb_renterPhone body),
              renterAddress = or_null (qb_renterAddress body),
              initialCondition = or_null (qb_initialCondition body),
              returnCondition = None\<rparr>)
     (\<lambda>newRental.
     bind (rentalStatusLog_create (rental_id newRental) ''APPROVED'' uid
             ''Rental created and approved by admin'' now)
     (\<lambda>_.
     bind (item_update serial RENTED)
     (\<lambda>_.
     bind (activityLog_create
             \<lparr>al_type = RENTAL_CREATED,
              al_action = ''Created new rental for '' @ item_name item @
                 (if truthy (qb_customerId body) then '' for customer'' else ''''),
              al_userId = uid,
              al_itemSerial = Some serial,
              al_rentalId = Some (rental_id newRental),
              al_affectedUserId = Some uid,
              al_customerId = or_null (qb_customerId body),
              al_createdAt = now\<rparr>)
     (\<lambda>_. ret newRental))))"

text \<open>The handler. The notification is awaited inside \<open>try\<close>/\<open>catch\<close>; the catch block
  logs the error.\<close>

definition POST_rentals ::
  "notifier \<Rightarrow> AuthUser option \<Rightarrow> PostBody \<Rightarrow> string \<Rightarrow> DateTime \<Rightarrow> store
     \<Rightarrow> response \<times> store" where
  "POST_rentals createInstantNotificationForReminder user body uuid now s =
     (case user of
        None \<Rightarrow> (Json_error ''Unauthorized'' 401, s)
      | Some u \<Rightarrow>
          if \<not> isAdmin u then (Json_error ''Unauthorized'' 401, s)
          else if \<not> truthy (qb_itemSerial body) \<or> qb_startDate body = None
          then (Json_error ''Missing required fields'' 400, s)
          else
            (let serial = the (qb_itemSerial body) in
             case items s serial of
               None \<Rightarrow> (Json_error ''Item not found'' 404, s)
             | Some item \<Rightarrow>
                 if item_status item \<noteq> AVAILABLE
                 then (Json_error ''Item is not available for rental'' 400, s)
                 else if truthy (qb_customerId body)
                         \<and> the (qb_customerId body) \<notin> customers s
                 then (Json_error ''Customer not found'' 404, s)
                 else
                   (case transaction (POST_rentals_tx serial (au_id u) body item uuid now) s of
                      (Inl e, s') \<Rightarrow> (Json_error ''Failed to create rental'' 500, s')
                    | (Inr rental, s') \<Rightarrow>
                        (Json_ok rental,
                         snd (createInstantNotificationForReminder (rental_id rental)
                                ''RENTAL'' s')))))"

section \<open>PATCH /api/admin/rentals/[id]\<close>

record PatchByIdBody =
  ib_status :: "string option"
  ib_notes :: "string option"
  ib_poNumber :: "string option option"
  ib_doNumber :: "string option option"
  ib_startDate :: "DateTime option"
  ib_endDate :: "DateTime option"

definition updateData :: "PatchByIdBody \<Rightarrow> Rental \<Rightarrow> DateTime \<Rightarrow> RentalUpdateInput" where
  "updateData body currentRental now =
     \<lparr>u_status = (if truthy (ib_status body) then ib_status body else None),
      u_poNumber = ib_poNumber body,
      u_doNumber = ib_doNumber body,
      u_startDate = ib_startDate body,
      u_endDate = ib_endDate body,
      u_returnDate = (if ib_status body = Some ''COMPLETED'' \<and> returnDate currentRental = None
                      then Some now else None),
      u_returnCondition = None\<rparr>"

text \<open>The body of the transaction. Reading \<open>currentRental.item.name\<close> throws when the
  item was not found.\<close>

definition PATCH_rental_tx ::
  "string \<Rightarrow> PatchByIdBody \<Rightarrow> string \<Rightarrow> Rental \<Rightarrow> Item option \<Rightarrow> DateTime \<Rightarrow> Rental db" where
  "PATCH_rental_tx rentalId body adminId currentRental item now =
     bind (rental_update rentalId (updateData body currentRental now))
     (\<lambda>updated.
     bind (if truthy (ib_status body) then
             (let st = the (ib_status body) in
              bind (rentalStatusLog_create rentalId st adminId
                      (or_else (ib_notes body) (''Status updated to '' @ st @ '' by admin'')) now)
              (\<lambda>_.
              bind (case (if st = ''APPROVED'' then Some RENTED
                          else if st = ''COMPLETED'' then Some AVAILABLE
                          else if st = ''REJECTED'' \<or> st = ''CANCELLED'' then Some AVAILABLE
                          else None) of
                      None \<Rightarrow> ret ()
                    | Some v \<Rightarrow> item_update (itemSerial currentRental) v)
              (\<lambda>_.
              activityLog_create
                \<lparr>al_type = RENTAL_UPDATED,
                 al_action = ''Updated rental status to '' @ st,
                 al_userId = adminId,
                 al_itemSerial = Some (itemSerial currentRental),
                 al_rentalId = Some rentalId,
                 al_affectedUserId = Some (userId currentRental),
                 al_customerId = None,
                 al_createdAt = now\<rparr>)))
           else
             (case item of
                None \<Rightarrow> throw TypeError
              | Some i \<Rightarrow>
                  activityLog_create
                    \<lparr>al_type = RENTAL_UPDATED,
                     al_action = ''Updated rental details for '' @ item_name i,
                     al_userId = adminId,
                     al_itemSerial = Some (itemSerial currentRental),
                     al_rentalId = Some rentalId,
                     al_affectedUserId = Some (userId currentRental),
                     al_customerId = None,
                     al_createdAt = now\<rparr>))
     (\<lambda>_. ret updated))"

text \<open>The handler. \<open>logRentalActivity\<close> is awaited after the commit, outside any inner
  \<open>try\<close>: its exception reaches the handler's own catch block. The reminder call is
  wrapped in \<open>try\<close>/\<open>catch\<close>.\<close>

definition PATCH_rental ::
  "activity_logger \<Rightarrow> notifier \<Rightarrow> AdminPayload option \<Rightarrow> string \<Rightarrow> PatchByIdBody \<Rightarrow> DateTime
     \<Rightarrow> store \<Rightarrow> response \<times> store" where
  "PATCH_rental logRentalActivity handleRentalStatusChange user rentalId body now s =
     (case user of
        None \<Rightarrow> (Json_error ''Unauthorized'' 401, s)
      | Some u \<Rightarrow>
          (case rental_findUnique s rentalId of
             None \<Rightarrow> (Json_error ''Rental not found'' 404, s)
           | Some (currentRental, item) \<Rightarrow>
               (case transaction (PATCH_rental_tx rentalId body (ap_userId u) currentRental
                                    item now) s of
                  (Inl e, s') \<Rightarrow> (Json_error ''Failed to update rental'' 500, s')
                | (Inr updatedRental, s') \<Rightarrow>
                    (case logRentalActivity (ap_userId u) RENTAL_UPDATED rentalId
                            (itemSerial currentRental)
                            (''Admin '' @ or_else (ap_name u) ''Unknown'' @
                               '' updated rental status to '' @ template (ib_status body)) s' of
                       (Inl e, s'') \<Rightarrow> (Json_error ''Failed to update rental'' 500, s'')
                     | (Inr _, s'') \<Rightarrow>
                         (Json_ok updatedRental,
                          if ib_status body = Some ''APPROVED''
                          then snd (handleRentalStatusChange rentalId ''APPROVED'' s'')
                          else s'')))))"

section \<open>DELETE /api/admin/rentals/[id]\<close>

text \<open>The body of the transaction. Reading \<open>rental.item.status\<close> throws when the item
  was not found.\<close>

definition DELETE_rental_tx ::
  "string \<Rightarrow> string \<Rightarrow> Rental \<Rightarrow> Item option \<Rightarrow> DateTime \<Rightarrow> Rental db" where
  "DELETE_rental_tx rentalId adminId rental item now =
     bind (rental_update rentalId (no_update\<lparr>u_status := Some ''CANCELLED''\<rparr>))
     (\<lambda>updated.
     bind (rentalStatusLog_create rentalId ''CANCELLED'' adminId ''Rental cancelled by admin'' now)
     (\<lambda>_.
     case item of
       None \<Rightarrow> throw TypeError
     | Some i \<Rightarrow>
         bind (if item_status i = RENTED then item_update (itemSerial rental) AVAILABLE
               else ret ())
         (\<lambda>_.
         bind (activityLog_create
                 \<lparr>al_type = RENTAL_UPDATED,
                  al_action = ''Cancelled rental for '' @ item_name i,
                  al_userId = adminId,
                  al_itemSerial = Some (itemSerial rental),
                  al_rentalId = Some rentalId,
                  al_affectedUserId = Some (userId rental),
                  al_customerId = None,
                  al_createdAt = now\<rparr>)
         (\<lambda>_. ret updated))))"

definition DELETE_rental ::
  "AdminPayload option \<Rightarrow> string \<Rightarrow> DateTime \<Rightarrow> store \<Rightarrow> response \<times> store" where
  "DELETE_rental user rentalId now s =
     (case user of
        None \<Rightarrow> (Json_error ''Unauthorized'' 401, s)
      | Some u \<Rightarrow>
          (case rental_findUnique s rentalId of
             None \<Rightarrow> (Json_error ''Rental not found'' 404, s)
           | Some (rental, item) \<Rightarrow>
               (case transaction (DELETE_rental_tx rentalId (ap_userId u) rental item now) s of
                  (Inl e, s') \<Rightarrow> (Json_error ''Failed to cancel rental'' 500, s')
                | (Inr updatedRental, s') \<Rightarrow> (Json_ok updatedRental, s'))))"

section \<open>What a call guarantees when it returns\<close>

text \<open>\<open>on_return m s Q\<close>: if the call \<open>m\<close>, started in the store \<open>s\<close>, returns \<open>x\<close>
  and leaves the store \<open>s'\<close>, then \<open>Q x s'\<close> holds. Nothing is said of a call that
  throws. The rules below compute it along the structure of a transaction body.\<close>

definition on_return :: "'a db \<Rightarrow> store \<Rightarrow> ('a \<Rightarrow> store \<Rightarrow> bool) \<Rightarrow> bool" where
  "on_return m s Q = (case m s of (Inl e, s') \<Rightarrow> True | (Inr x, s') \<Rightarrow> Q x s')"

section \<open>Example data\<close>

text \<open>The functions called after the commit are parameters of the handlers, and what is
  proved of a handler holds for each of them. A run on a concrete store needs concrete ones:
  a logger and a notifier that return and leave the store as it is, and a notifier that
  throws.\<close>

definition log_ok :: activity_logger where
  "log_ok uid ty rid serial action = ret ()"

definition notify_ok :: notifier where
  "notify_ok rid ty = ret ()"

definition notify_fails :: notifier where
  "notify_fails rid ty = throw ServiceError"

text \<open>One item \<open>SN-001\<close>, one rental \<open>r-1\<close> of it by \<open>user-1\<close> with an open history
  row, and the administrator \<open>admin-1\<close>.\<close>

definition admin1 :: AuthUser where
  "admin1 = \<lparr>au_id = ''admin-1'', au_role = ADMIN\<rparr>"

definition payload1 :: AdminPayload where
  "payload1 = \<lparr>ap_userId = ''admin-1'', ap_name = Some ''Ani''\<rparr>"

definition item1 :: "ItemStatus \<Rightarrow> Item" where
  "item1 st = \<lparr>serialNumber = ''SN-001'', item_name = ''Gas Detector'', item_status = st\<rparr>"

definition rental1 :: "RequestStatus \<Rightarrow> Rental" where
  "rental1 st =
     \<lparr>rental_id = ''r-1'', itemSerial = ''SN-001'', userId = ''user-1'', customerId = None,
      poNumber = None, doNumber = None, rental_status = st, startDate = 10,
      endDate = Some 20, returnDate = None, renterName = None, renterPhone = None,
      renterAddress = None, initialCondition = None, returnCondition = None\<rparr>"

definition history1 :: ItemHistory where
  "history1 = \<lparr>ih_itemSerial = ''SN-001'', ih_action = ''RENTED'', ih_relatedId = Some ''r-1'',
     ih_endDate = None\<rparr>"

definition store1 :: "RequestStatus \<Rightarrow> ItemStatus \<Rightarrow> store" where
  "store1 rs st =
     \<lparr>items = [''SN-001'' \<mapsto> item1 st], rentals = [''r-1'' \<mapsto> rental1 rs],
      rentalStatusLogs = [], activityLogs = [], itemHistories = [history1],
      users = {''admin-1'', ''user-1''}, customers = {}\<rparr>"

definition patch_body1 :: "string \<Rightarrow> PatchBody" where
  "patch_body1 st = \<lparr>pb_id = Some ''r-1'', pb_status = Some st, pb_notes = None,
     pb_returnCondition = None\<rparr>"

definition patch_by_id_body1 :: "string \<Rightarrow> PatchByIdBody" where
  "patch_by_id_body1 st = \<lparr>ib_status = Some st, ib_notes = None, ib_poNumber = None,
     ib_doNumber = None, ib_startDate = None, ib_endDate = None\<rparr>"

definition post_body1 :: PostBody where
  "post_body1 =
     \<lparr>qb_itemSerial = Some ''SN-001'', qb_startDate = Some 30, qb_endDate = Some 40,
      qb_poNumber = None, qb_doNumber = None, qb_customerId = None, qb_renterName = None,
      qb_renterPhone = None, qb_renterAddress = None, qb_initialCondition = None\<rparr>"

section \<open>Basic facts\<close>

lemma RequestStatus_of_name [simp]: "RequestStatus_of (RequestStatus_name t) = Some t"
  by (cases t) (simp_all add: RequestStatus_of_def)

lemma RequestStatus_name_nonempty [simp]: "RequestStatus_name t \<noteq> []"
  by (cases t) simp_all

lemma RequestStatus_name_eq [simp]:
  "(RequestStatus_name t = ''APPROVED'') = (t = APPROVED)"
  "(RequestStatus_name t = ''COMPLETED'') = (t = COMPLETED)"
  "(RequestStatus_name t = ''REJECTED'') = (t = REJECTED)"
  "(RequestStatus_name t = ''CANCELLED'') = (t = CANCELLED)"
  by (cases t; simp)+

lemma rental_status_apply_update [simp]:
  "rental_status (apply_update d st r) = (case st of None \<Rightarrow> rental_status r | Some v \<Rightarrow> v)"
  by (simp add: apply_update_def)

lemmas db_defs = bind_def ret_def throw_def transaction_def rental_update_def
  rental_create_def rentalStatusLog_create_def item_update_def itemHistory_updateMany_def
  activityLog_create_def fk_ok_def apply_update_def no_update_def

lemmas example_defs = admin1_def payload1_def item1_def rental1_def history1_def store1_def
  patch_body1_def patch_by_id_body1_def post_body1_def notify_ok_def notify_fails_def

subsection \<open>Rules for \<open>on_return\<close>\<close>

lemma on_return_bind [simp]:
  "on_return (bind m f) s Q = on_return m s (\<lambda>x s'. on_return (f x) s' Q)"
  by (simp add: on_return_def bind_def split: prod.split sum.split)

lemma on_return_ret [simp]: "on_return (ret x) s Q = Q x s"
  by (simp add: on_return_def ret_def)

lemma on_return_throw [simp]: "on_return (throw e) s Q = True"
  by (simp add: on_return_def throw_def)

lemma on_return_if [simp]:
  "on_return (if c then m else n) s Q = ((c \<longrightarrow> on_return m s Q) \<and> (\<not> c \<longrightarrow> on_return n s Q))"
  by simp

lemma on_return_case_option [simp]:
  "on_return (case v of None \<Rightarrow> m | Some x \<Rightarrow> n x) s Q =
     ((v = None \<longrightarrow> on_return m s Q) \<and> (\<forall>x. v = Some x \<longrightarrow> on_return (n x) s Q))"
  by (simp split: option.split)

lemma on_return_rental_update [simp]:
  "on_return (rental_update rid d) s Q =
     (\<forall>r. rentals s rid = Some r \<longrightarrow>
        (case u_status d of
           None \<Rightarrow> Q (apply_update d None r)
                    (s\<lparr>rentals := (rentals s)(rid \<mapsto> apply_update d None r)\<rparr>)
         | Some st \<Rightarrow>
             (\<forall>v. RequestStatus_of st = Some v \<longrightarrow>
                Q (apply_update d (Some v) r)
                  (s\<lparr>rentals := (rentals s)(rid \<mapsto> apply_update d (Some v) r)\<rparr>))))"
  by (auto simp add: on_return_def rental_update_def Let_def split: option.split)

lemma on_return_rental_create [simp]:
  "on_return (rental_create r) s Q =
     (rental_id r \<notin> dom (rentals s) \<longrightarrow> itemSerial r \<in> dom (items s) \<longrightarrow>
      userId r \<in> users s \<longrightarrow> fk_ok (customerId r) (customers s) \<longrightarrow>
        Q r (s\<lparr>rentals := (rentals s)(rental_id r \<mapsto> r)\<rparr>))"
  by (auto simp add: on_return_def rental_create_def fk_ok_def split: option.split)

lemma on_return_rentalStatusLog_create [simp]:
  "on_return (rentalStatusLog_create rid st uid nts now) s Q =
     (\<forall>v. RequestStatus_of st = Some v \<longrightarrow> rid \<in> dom (rentals s) \<longrightarrow> uid \<in> users s \<longrightarrow>
        Q () (s\<lparr>rentalStatusLogs := rentalStatusLogs s @
                  [\<lparr>sl_rentalId = rid, sl_status = v, sl_notes = Some nts, sl_userId = uid,
                    sl_createdAt = now\<rparr>]\<rparr>))"
  by (auto simp add: on_return_def rentalStatusLog_create_def split: option.split)

lemma on_return_item_update [simp]:
  "on_return (item_update serial st) s Q =
     (\<forall>i. items s serial = Some i \<longrightarrow>
        Q () (s\<lparr>items := (items s)(serial \<mapsto> i\<lparr>item_status := st\<rparr>)\<rparr>))"
  by (auto simp add: on_return_def item_update_def split: option.split)

lemma on_return_itemHistory_updateMany [simp]:
  "on_return (itemHistory_updateMany serial rid now) s Q =
     Q () (s\<lparr>itemHistories := map (itemHistory_close serial rid now) (itemHistories s)\<rparr>)"
  by (simp add: on_return_def itemHistory_updateMany_def)

lemma on_return_activityLog_create [simp]:
  "on_return (activityLog_create a) s Q =
     (al_userId a \<in> users s \<longrightarrow> fk_ok (al_itemSerial a) (dom (items s)) \<longrightarrow>
      fk_ok (al_rentalId a) (dom (rentals s)) \<longrightarrow> fk_ok (al_affectedUserId a) (users s) \<longrightarrow>
      fk_ok (al_customerId a) (customers s) \<longrightarrow>
        Q () (s\<lparr>activityLogs := activityLogs s @ [a]\<rparr>))"
  by (auto simp add: on_return_def activityLog_create_def)

lemma transaction_cases:
  "(case transaction body s of (Inl e, s') \<Rightarrow> s' = s | (Inr x, s') \<Rightarrow> Q x s') =
     on_return body s Q"
  by (simp add: on_return_def transaction_def split: prod.split sum.split)

lemma on_return_transaction: "on_return (transaction body) s Q = on_return body s Q"
  by (simp add: on_return_def transaction_def split: prod.split sum.split)

subsection \<open>What each transaction guarantees when it commits\<close>

lemma PATCH_rentals_tx_effects:
  "on_return (PATCH_rentals_tx rid st nts rc adminId cur now) s (\<lambda>x s'.
      rentals s' rid = Some x \<and> RequestStatus_of st = Some (rental_status x)
    \<and> (\<exists>l. rentalStatusLogs s' = rentalStatusLogs s @ [l] \<and> sl_rentalId l = rid
           \<and> sl_status l = rental_status x \<and> sl_userId l = adminId)
    \<and> (\<exists>a. activityLogs s' = activityLogs s @ [a] \<and> al_rentalId a = Some rid
           \<and> al_userId a = adminId)
    \<and> (st = ''APPROVED'' \<longrightarrow> map_option item_status (items s' (itemSerial cur)) = Some RENTED)
    \<and> (st = ''COMPLETED'' \<or> st = ''REJECTED'' \<longrightarrow>
          map_option item_status (items s' (itemSerial cur)) = Some AVAILABLE))"
  by (auto simp add: PATCH_rentals_tx_def split del: if_split)

lemma PATCH_rental_tx_effects:
  "ib_status body = Some st \<Longrightarrow> st \<noteq> [] \<Longrightarrow>
   on_return (PATCH_rental_tx rid body adminId cur item now) s (\<lambda>x s'.
      rentals s' rid = Some x \<and> RequestStatus_of st = Some (rental_status x)
    \<and> (\<exists>l. rentalStatusLogs s' = rentalStatusLogs s @ [l] \<and> sl_rentalId l = rid
           \<and> sl_status l = rental_status x \<and> sl_userId l = adminId)
    \<and> (\<exists>a. activityLogs s' = activityLogs s @ [a] \<and> al_rentalId a = Some rid
           \<and> al_userId a = adminId)
    \<and> (st = ''APPROVED'' \<longrightarrow> map_option item_status (items s' (itemSerial cur)) = Some RENTED)
    \<and> (st = ''COMPLETED'' \<or> st = ''REJECTED'' \<or> st = ''CANCELLED'' \<longrightarrow>
          map_option item_status (items s' (itemSerial cur)) = Some AVAILABLE))"
  by (auto simp add: PATCH_rental_tx_def updateData_def truthy_def Let_def)

lemma DELETE_rental_tx_effects:
  "on_return (DELETE_rental_tx rid adminId cur item now) s (\<lambda>x s'.
      rentals s' rid = Some x \<and> rental_status x = CANCELLED
    \<and> (\<exists>l. rentalStatusLogs s' = rentalStatusLogs s @ [l] \<and> sl_rentalId l = rid
           \<and> sl_status l = rental_status x \<and> sl_userId l = adminId)
    \<and> (\<exists>a. activityLogs s' = activityLogs s @ [a] \<and> al_rentalId a = Some rid
           \<and> al_userId a = adminId)
    \<and> (map_option item_status item = Some RENTED \<longrightarrow>
          map_option item_status (items s' (itemSerial cur)) = Some AVAILABLE)
    \<and> (map_option item_status item \<noteq> Some RENTED \<longrightarrow> items s' = items s))"
  by (auto simp add: DELETE_rental_tx_def no_update_def RequestStatus_of_def split del: if_split)

lemma DELETE_rental_tx_dom:
  "on_return (DELETE_rental_tx rid adminId cur item now) s (\<lambda>x s'.
      dom (rentals s') = dom (rentals s))"
  by (auto simp add: DELETE_rental_tx_def no_update_def split del: if_split)

lemma POST_rentals_tx_effects:
  "on_return (POST_rentals_tx serial uid body item uuid now) s (\<lambda>x s'.
      rentals s' uuid = Some x \<and> rental_status x = APPROVED \<and> rental_id x = uuid
    \<and> (\<exists>l. rentalStatusLogs s' = rentalStatusLogs s @ [l] \<and> sl_rentalId l = uuid
           \<and> sl_status l = rental_status x \<and> sl_userId l = uid)
    \<and> (\<exists>a. activityLogs s' = activityLogs s @ [a] \<and> al_rentalId a = Some uuid
           \<and> al_userId a = uid)
    \<and> map_option item_status (items s' serial) = Some RENTED)"
  by (auto simp add: POST_rentals_tx_def RequestStatus_of_def split del: if_split)

subsection \<open>The handlers around their transactions\<close>

lemma PATCH_rentals_unfold:
  assumes "isAdmin u" and "rid \<noteq> []" and "st \<noteq> []" and "rentals s rid = Some r"
  shows "PATCH_rentals notify (Some u)
           \<lparr>pb_id = Some rid, pb_status = Some st, pb_notes = nts, pb_returnCondition = rc\<rparr>
           now s =
    (case transaction (PATCH_rentals_tx rid st nts rc (au_id u) r now) s of
       (Inl e, s') \<Rightarrow> (Json_error ''Failed to update rental status'' 500, s')
     | (Inr x, s') \<Rightarrow>
         (Json_ok x, if st = ''APPROVED'' then snd (notify rid ''RENTAL'' s') else s'))"
  using assms by (simp add: PATCH_rentals_def truthy_def rental_findUnique_def)


lemma DELETE_rental_unfold:
  assumes "rentals s rid = Some r"
  shows "DELETE_rental (Some u) rid now s =
    (case transaction (DELETE_rental_tx rid (ap_userId u) r (items s (itemSerial r)) now) s of
       (Inl e, s') \<Rightarrow> (Json_error ''Failed to cancel rental'' 500, s')
     | (Inr x, s') \<Rightarrow> (Json_ok x, s'))"
  using assms by (simp add: DELETE_rental_def rental_findUnique_def)

lemma POST_rentals_unfold:
  assumes "isAdmin u" and "serial \<noteq> []" and "qb_itemSerial body = Some serial"
    and "qb_startDate body \<noteq> None"
    and "items s serial = Some item" and "item_status item = AVAILABLE"
    and "fk_ok (or_null (qb_customerId body)) (customers s)"
  shows "POST_rentals notify (Some u) body uuid now s =
    (case transaction (POST_rentals_tx serial (au_id u) body item uuid now) s of
       (Inl e, s') \<Rightarrow> (Json_error ''Failed to create rental'' 500, s')
     | (Inr x, s') \<Rightarrow> (Json_ok x, snd (notify (rental_id x) ''RENTAL'' s')))"
  using assms
  by (auto simp add: POST_rentals_def truthy_def or_null_def fk_ok_def split: option.splits)

lemma PATCH_rentals_error_unchanged:
  "PATCH_rentals notify user body now s = (Json_error msg code, s') \<Longrightarrow> s' = s"
  by (auto simp add: PATCH_rentals_def transaction_def Let_def
        split: if_splits option.splits prod.splits sum.splits)

lemma POST_rentals_error_unchanged:
  "POST_rentals notify user body uuid now s = (Json_error msg code, s') \<Longrightarrow> s' = s"
  by (auto simp add: POST_rentals_def transaction_def Let_def
        split: if_splits option.splits prod.splits sum.splits)

lemma DELETE_rental_error_unchanged:
  "DELETE_rental user rid now s = (Json_error msg code, s') \<Longrightarrow> s' = s"
  by (auto simp add: DELETE_rental_def transaction_def Let_def
        split: if_splits option.splits prod.splits sum.splits)

subsection \<open>The outcomes of POST /api/admin/rentals\<close>

lemma transaction_Inl_store: "transaction body s = (Inl e, s') \<Longrightarrow> s' = s"
  by (auto simp add: transaction_def split: prod.splits sum.splits)

lemma transaction_Inr_body: "transaction body s = (Inr x, s') \<Longrightarrow> body s = (Inr x, s')"
  by (auto simp add: transaction_def split: prod.splits sum.splits)

lemma POST_rentals_tx_id:
  assumes "transaction (POST_rentals_tx serial uid body item uuid now) s = (Inr x, s')"
  shows "rental_id x = uuid"
  using POST_rentals_tx_effects [of serial uid body item uuid now s]
    transaction_Inr_body [OF assms]
  by (simp add: on_return_def)

lemma POST_rentals_outcome:
  obtains (error) m k where
      "\<And>notify. POST_rentals notify user body uuid now s = (Json_error m k, s)"
  | (committed) u serial item x s' where
      "transaction (POST_rentals_tx serial (au_id (u::AuthUser)) body item uuid now) s = (Inr x, s')"
      "\<And>notify. POST_rentals notify user body uuid now s
                 = (Json_ok x, snd (notify uuid ''RENTAL'' s'))"
proof (cases user)
  case None
  then have "POST_rentals notify user body uuid now s = (Json_error ''Unauthorized'' 401, s)"
    for notify
    by (simp add: POST_rentals_def)
  then show ?thesis by (rule error)
next
  case caller: (Some u)
  show ?thesis
  proof (cases "isAdmin u")
    case False
    with caller
    have "POST_rentals notify user body uuid now s = (Json_error ''Unauthorized'' 401, s)"
      for notify
      by (simp add: POST_rentals_def)
    then show ?thesis by (rule error)
  next
    case admin: True
    show ?thesis
    proof (cases "truthy (qb_itemSerial body)")
      case False
      with caller admin
      have "POST_rentals notify user body uuid now s
              = (Json_error ''Missing required fields'' 400, s)" for notify
        by (simp add: POST_rentals_def)
      then show ?thesis by (rule error)
    next
      case serial: True
      show ?thesis
      proof (cases "qb_startDate body")
        case None
        with caller admin serial
        have "POST_rentals notify user body uuid now s
                = (Json_error ''Missing required fields'' 400, s)" for notify
          by (simp add: POST_rentals_def)
        then show ?thesis by (rule error)
      next
        case start: (Some d)
        show ?thesis
        proof (cases "items s (the (qb_itemSerial body))")
          case None
          with caller admin serial start
          have "POST_rentals notify user body uuid now s
                  = (Json_error ''Item not found'' 404, s)" for notify
            by (simp add: POST_rentals_def Let_def)
          then show ?thesis by (rule error)
        next
          case found: (Some item)
          show ?thesis
          proof (cases "item_status item = AVAILABLE")
            case False
            with caller admin serial start found
            have "POST_rentals notify user body uuid now s
                    = (Json_error ''Item is not available for rental'' 400, s)" for notify
              by (simp add: POST_rentals_def Let_def)
            then show ?thesis by (rule error)
          next
            case free: True
            show ?thesis
            proof (cases "truthy (qb_customerId body)
                          \<and> the (qb_customerId body) \<notin> customers s")
              case True
              then have c: "truthy (qb_customerId body)"
                "the (qb_customerId body) \<notin> customers s"
                by simp_all
              from caller admin serial start found free c
              have "POST_rentals notify user body uuid now s
                      = (Json_error ''Customer not found'' 404, s)" for notify
                by (simp add: POST_rentals_def Let_def)
              then show ?thesis by (rule error)
            next
              case known: False
              have run: "POST_rentals notify user body uuid now s =
                  (case transaction (POST_rentals_tx (the (qb_itemSerial body)) (au_id u) body
                          item uuid now) s of
                     (Inl e, s') \<Rightarrow> (Json_error ''Failed to create rental'' 500, s')
                   | (Inr x, s') \<Rightarrow> (Json_ok x, snd (notify (rental_id x) ''RENTAL'' s')))"
                for notify
                using caller admin serial start found free
                by (simp add: POST_rentals_def Let_def if_not_P [OF known])
              show ?thesis
              proof (cases "transaction (POST_rentals_tx (the (qb_itemSerial body)) (au_id u)
                              body item uuid now) s")
                case (Pair res s')
                show ?thesis
                proof (cases res)
                  case (Inl e)
                  with Pair have tx: "transaction (POST_rentals_tx (the (qb_itemSerial body))
                      (au_id u) body item uuid now) s = (Inl e, s')"
                    by simp
                  then have "s' = s" by (rule transaction_Inl_store)
                  with tx
                  have "POST_rentals notify user body uuid now s
                          = (Json_error ''Failed to create rental'' 500, s)" for notify
                    by (simp add: run)
                  then show ?thesis by (rule error)
                next
                  case (Inr x)
                  with Pair have tx: "transaction (POST_rentals_tx (the (qb_itemSerial body))
                      (au_id u) body item uuid now) s = (Inr x, s')"
                    by simp
                  then have "rental_id x = uuid" by (rule POST_rentals_tx_id)
                  with tx have ok: "POST_rentals notify user body uuid now s
                          = (Json_ok x, snd (notify uuid ''RENTAL'' s'))" for notify
                    by (simp add: run)
                  show ?thesis by (rule committed [OF tx ok])
                qed
              qed
            qed
          qed
        qed
      qed
    qed
  qed
qed

subsection \<open>The transactions when every row they refer to exists\<close>

lemma PATCH_rentals_tx_ok:
  assumes "rentals s rid = Some r" and "items s (itemSerial r) = Some it"
    and "adminId \<in> users s" and "userId r \<in> users s"
  shows "transaction (PATCH_rentals_tx rid (RequestStatus_name t) nts rc adminId r now) s =
    (Inr (r\<lparr>rental_status := t,
            returnDate := (if t = COMPLETED \<and> returnDate r = None then Some now else returnDate r),
            returnCondition := (if truthy rc then rc else returnCondition r)\<rparr>),
     s\<lparr>items := (if t = APPROVED then (items s)(itemSerial r \<mapsto> it\<lparr>item_status := RENTED\<rparr>)
                 else if t = COMPLETED \<or> t = REJECTED
                 then (items s)(itemSerial r \<mapsto> it\<lparr>item_status := AVAILABLE\<rparr>)
                 else items s),
       rentals := (rentals s)(rid \<mapsto> r\<lparr>rental_status := t,
            returnDate := (if t = COMPLETED \<and> returnDate r = None then Some now else returnDate r),
            returnCondition := (if truthy rc then rc else returnCondition r)\<rparr>),
       rentalStatusLogs := rentalStatusLogs s @
         [\<lparr>sl_rentalId = rid, sl_status = t,
           sl_notes = Some (or_else nts (''Status changed to '' @ RequestStatus_name t)),
           sl_userId = adminId, sl_createdAt = now\<rparr>],
       activityLogs := activityLogs s @
         [\<lparr>al_type = RENTAL_UPDATED,
           al_action = ''Updated rental status to '' @ RequestStatus_name t,
           al_userId = adminId, al_itemSerial = Some (itemSerial r), al_rentalId = Some rid,
           al_affectedUserId = Some (userId r), al_customerId = None, al_createdAt = now\<rparr>],
       itemHistories := (if t = COMPLETED
                         then map (itemHistory_close (itemSerial r) rid now) (itemHistories s)
                         else itemHistories s)\<rparr>)"
  using assms
  by (simp add: PATCH_rentals_tx_def db_defs truthy_def domI Let_def split: option.splits)

lemma PATCH_rental_tx_ok:
  assumes "rentals s rid = Some r" and "items s (itemSerial r) = Some it"
    and "adminId \<in> users s" and "userId r \<in> users s"
    and "ib_status body = Some (RequestStatus_name t)"
  shows "transaction (PATCH_rental_tx rid body adminId r item now) s =
    (Inr (apply_update (updateData body r now) (Some t) r),
     s\<lparr>items := (if t = PENDING then items s
                 else (items s)(itemSerial r \<mapsto>
                        it\<lparr>item_status := (if t = APPROVED then RENTED else AVAILABLE)\<rparr>)),
       rentals := (rentals s)(rid \<mapsto> apply_update (updateData body r now) (Some t) r),
       rentalStatusLogs := rentalStatusLogs s @
         [\<lparr>sl_rentalId = rid, sl_status = t,
           sl_notes = Some (or_else (ib_notes body)
                        (''Status updated to '' @ RequestStatus_name t @ '' by admin'')),
           sl_userId = adminId, sl_createdAt = now\<rparr>],
       activityLogs := activityLogs s @
         [\<lparr>al_type = RENTAL_UPDATED,
           al_action = ''Updated rental status to '' @ RequestStatus_name t,
           al_userId = adminId, al_itemSerial = Some (itemSerial r), al_rentalId = Some rid,
           al_affectedUserId = Some (userId r), al_customerId = None, al_createdAt = now\<rparr>]\<rparr>)"
  using assms
  by (cases t) (simp_all add: PATCH_rental_tx_def updateData_def bind_def ret_def throw_def
        transaction_def rental_update_def rentalStatusLog_create_def item_update_def
        activityLog_create_def fk_ok_def truthy_def domI Let_def RequestStatus_of_def)

lemma DELETE_rental_tx_ok:
  assumes "rentals s rid = Some r" and "items s (itemSerial r) = Some it"
    and "adminId \<in> users s" and "userId r \<in> users s"
  shows "transaction (DELETE_rental_tx rid adminId r (Some it) now) s =
    (Inr (r\<lparr>rental_status := CANCELLED\<rparr>),
     s\<lparr>items := (if item_status it = RENTED
                 then (items s)(itemSerial r \<mapsto> it\<lparr>item_status := AVAILABLE\<rparr>)
                 else items s),
       rentals := (rentals s)(rid \<mapsto> r\<lparr>rental_status := CANCELLED\<rparr>),
       rentalStatusLogs := rentalStatusLogs s @
         [\<lparr>sl_rentalId = rid, sl_status = CANCELLED,
           sl_notes = Some ''Rental cancelled by admin'',
           sl_userId = adminId, sl_createdAt = now\<rparr>],
       activityLogs := activityLogs s @
         [\<lparr>al_type = RENTAL_UPDATED,
           al_action = ''Cancelled rental for '' @ item_name it,
           al_userId = adminId, al_itemSerial = Some (itemSerial r), al_rentalId = Some rid,
           al_affectedUserId = Some (userId r), al_customerId = None, al_createdAt = now\<rparr>]\<rparr>)"
  using assms
  by (simp add: DELETE_rental_tx_def db_defs domI Let_def RequestStatus_of_def)

lemma POST_rentals_tx_ok:
  assumes "items s serial = Some item" and "uid \<in> users s" and "uuid \<notin> dom (rentals s)"
    and "fk_ok (or_null (qb_customerId body)) (customers s)"
  shows "transaction (POST_rentals_tx serial uid body item uuid now) s =
    (Inr \<lparr>rental_id = uuid, itemSerial = serial, userId = uid,
           customerId = or_null (qb_customerId body), poNumber = qb_poNumber body,
           doNumber = qb_doNumber body, rental_status = APPROVED,
           startDate = the (qb_startDate body), endDate = qb_endDate body, returnDate = None,
           renterName = or_null (qb_renterName body),
           renterPhone = or_null (qb_renterPhone body),
           renterAddress = or_null (qb_renterAddress body),
           initialCondition = or_null (qb_initialCondition body), returnCondition = None\<rparr>,
     s\<lparr>items := (items s)(serial \<mapsto> item\<lparr>item_status := RENTED\<rparr>),
       rentals := (rentals s)(uuid \<mapsto>
         \<lparr>rental_id = uuid, itemSerial = serial, userId = uid,
           customerId = or_null (qb_customerId body), poNumber = qb_poNumber body,
           doNumber = qb_doNumber body, rental_status = APPROVED,
           startDate = the (qb_startDate body), endDate = qb_endDate body, returnDate = None,
           renterName = or_null (qb_renterName body),
           renterPhone = or_null (qb_renterPhone body),
           renterAddress = or_null (qb_renterAddress body),
           initialCondition = or_null (qb_initialCondition body), returnCondition = None\<rparr>),
       rentalStatusLogs := rentalStatusLogs s @
         [\<lparr>sl_rentalId = uuid, sl_status = APPROVED,
           sl_notes = Some ''Rental created and approved by admin'',
           sl_userId = uid, sl_createdAt = now\<rparr>],
       activityLogs := activityLogs s @
         [\<lparr>al_type = RENTAL_CREATED,
           al_action = ''Created new rental for '' @ item_name item @
              (if truthy (qb_customerId body) then '' for customer'' else ''''),
           al_userId = uid, al_itemSerial = Some serial, al_rentalId = Some uuid,
           al_affectedUserId = Some uid, al_customerId = or_null (qb_customerId body),
           al_createdAt = now\<rparr>]\<rparr>)"
  using assms
  by (auto simp add: POST_rentals_tx_def db_defs domI Let_def RequestStatus_of_def
        split: option.splits)

section \<open>Transitions out of a terminal status\<close>

text \<open>C1, as stated, fails: the handlers do not look at the current status of the
  rental. A COMPLETED rental of an AVAILABLE item that an administrator patches to
  APPROVED is answered with the updated rental; the rental is APPROVED and the item RENTED
  afterwards.\<close>

theorem PATCH_rentals_completed_rental_reapproved:
  "rental_status (rental1 COMPLETED) = COMPLETED
   \<and> fst (PATCH_rentals notify_ok (Some admin1) (patch_body1 ''APPROVED'') 100
            (store1 COMPLETED AVAILABLE)) =
       Json_ok ((rental1 COMPLETED)\<lparr>rental_status := APPROVED\<rparr>)
   \<and> rentals (snd (PATCH_rentals notify_ok (Some admin1) (patch_body1 ''APPROVED'') 100
            (store1 COMPLETED AVAILABLE))) ''r-1'' =
       Some ((rental1 COMPLETED)\<lparr>rental_status := APPROVED\<rparr>)
   \<and> items (store1 COMPLETED AVAILABLE) ''SN-001'' = Some (item1 AVAILABLE)
   \<and> items (snd (PATCH_rentals notify_ok (Some admin1) (patch_body1 ''APPROVED'') 100
            (store1 COMPLETED AVAILABLE))) ''SN-001'' = Some (item1 RENTED)"
  by (simp add: PATCH_rentals_def PATCH_rentals_tx_def db_defs example_defs isAdmin_def
        truthy_def or_else_def rental_findUnique_def RequestStatus_of_def Let_def)

text \<open>C1, amended. For a rental whose status is terminal (COMPLETED, REJECTED or
  CANCELLED), a PATCH by an administrator to any target status is not refused: when the
  item of the rental and the users referred to exist, the transaction of either PATCH
  handler commits, the rental has the target status afterwards, and the item has the
  status derived from the target; PATCH /api/admin/rentals answers with the updated
  rental.\<close>

theorem PATCH_from_terminal_status_succeeds:
  assumes "rental_status r \<in> {COMPLETED, REJECTED, CANCELLED}"
    and "rentals s rid = Some r" and "rid \<noteq> []"
    and "items s (itemSerial r) = Some it"
    and "isAdmin u" and "au_id u \<in> users s" and "ap_userId p \<in> users s"
    and "userId r \<in> users s"
    and "ib_status body = Some (RequestStatus_name t)"
  shows "(\<exists>r' s'.
            transaction (PATCH_rentals_tx rid (RequestStatus_name t) nts rc (au_id u) r now) s
              = (Inr r', s')
          \<and> PATCH_rentals notify (Some u)
               \<lparr>pb_id = Some rid, pb_status = Some (RequestStatus_name t), pb_notes = nts,
                pb_returnCondition = rc\<rparr> now s
              = (Json_ok r', if t = APPROVED then snd (notify rid ''RENTAL'' s') else s')
          \<and> rental_status r' = t \<and> rentals s' rid = Some r'
          \<and> (t = APPROVED \<longrightarrow> items s' (itemSerial r) = Some (it\<lparr>item_status := RENTED\<rparr>))
          \<and> (t = COMPLETED \<or> t = REJECTED \<longrightarrow>
                items s' (itemSerial r) = Some (it\<lparr>item_status := AVAILABLE\<rparr>)))
     \<and> (\<exists>r' s'.
            transaction (PATCH_rental_tx rid body (ap_userId p) r (Some it) now) s = (Inr r', s')
          \<and> rental_status r' = t \<and> rentals s' rid = Some r'
          \<and> (t = APPROVED \<longrightarrow> items s' (itemSerial r) = Some (it\<lparr>item_status := RENTED\<rparr>))
          \<and> (t = COMPLETED \<or> t = REJECTED \<or> t = CANCELLED \<longrightarrow>
                items s' (itemSerial r) = Some (it\<lparr>item_status := AVAILABLE\<rparr>)))"
proof -
  note tx = PATCH_rentals_tx_ok [OF assms(2) assms(4) assms(6) assms(8)]
  note run = PATCH_rentals_unfold [OF assms(5) assms(3) RequestStatus_name_nonempty assms(2)]
  note tx_id = PATCH_rental_tx_ok [OF assms(2) assms(4) assms(7) assms(8) assms(9)]
  have "\<exists>r' s'.
            transaction (PATCH_rentals_tx rid (RequestStatus_name t) nts rc (au_id u) r now) s
              = (Inr r', s')
          \<and> PATCH_rentals notify (Some u)
               \<lparr>pb_id = Some rid, pb_status = Some (RequestStatus_name t), pb_notes = nts,
                pb_returnCondition = rc\<rparr> now s
              = (Json_ok r', if t = APPROVED then snd (notify rid ''RENTAL'' s') else s')
          \<and> rental_status r' = t \<and> rentals s' rid = Some r'
          \<and> (t = APPROVED \<longrightarrow> items s' (itemSerial r) = Some (it\<lparr>item_status := RENTED\<rparr>))
          \<and> (t = COMPLETED \<or> t = REJECTED \<longrightarrow>
                items s' (itemSerial r) = Some (it\<lparr>item_status := AVAILABLE\<rparr>))"
    by (simp add: run tx)
  moreover have "\<exists>r' s'.
            transaction (PATCH_rental_tx rid body (ap_userId p) r (Some it) now) s = (Inr r', s')
          \<and> rental_status r' = t \<and> rentals s' rid = Some r'
          \<and> (t = APPROVED \<longrightarrow> items s' (itemSerial r) = Some (it\<lparr>item_status := RENTED\<rparr>))
          \<and> (t = COMPLETED \<or> t = REJECTED \<or> t = CANCELLED \<longrightarrow>
                items s' (itemSerial r) = Some (it\<lparr>item_status := AVAILABLE\<rparr>))"
    by (auto simp add: tx_id)
  ultimately show ?thesis by blast
qed

theorem PATCH_from_terminal_status_succeeds_witness:
  "rental_status (rental1 CANCELLED) \<in> {COMPLETED, REJECTED, CANCELLED}
   \<and> (\<exists>r'. fst (PATCH_rentals notify_ok (Some admin1) (patch_body1 ''COMPLETED'') 100
                  (store1 CANCELLED AVAILABLE)) = Json_ok r'
           \<and> rental_status r' = COMPLETED)
   \<and> (\<exists>r'. fst (transaction (PATCH_rental_tx ''r-1'' (patch_by_id_body1 ''COMPLETED'')
                  ''admin-1'' (rental1 CANCELLED) (Some (item1 AVAILABLE)) 100)
                  (store1 CANCELLED AVAILABLE)) = Inr r'
           \<and> rental_status r' = COMPLETED)"
proof -
  have h1: "rental_status (rental1 CANCELLED) \<in> {COMPLETED, REJECTED, CANCELLED}"
    by (simp add: rental1_def)
  have h2: "rentals (store1 CANCELLED AVAILABLE) ''r-1'' = Some (rental1 CANCELLED)"
    by (simp add: store1_def)
  have h3: "''r-1'' \<noteq> []" by simp
  have h4: "items (store1 CANCELLED AVAILABLE) (itemSerial (rental1 CANCELLED))
              = Some (item1 AVAILABLE)"
    by (simp add: store1_def rental1_def)
  have h5: "isAdmin admin1" by (simp add: isAdmin_def admin1_def)
  have h6: "au_id admin1 \<in> users (store1 CANCELLED AVAILABLE)"
    by (simp add: store1_def admin1_def)
  have h7: "ap_userId payload1 \<in> users (store1 CANCELLED AVAILABLE)"
    by (simp add: store1_def payload1_def)
  have h8: "userId (rental1 CANCELLED) \<in> users (store1 CANCELLED AVAILABLE)"
    by (simp add: store1_def rental1_def)
  have h9: "ib_status (patch_by_id_body1 ''COMPLETED'') = Some (RequestStatus_name COMPLETED)"
    by (simp add: patch_by_id_body1_def)
  have p: "ap_userId payload1 = ''admin-1''" by (simp add: payload1_def)
  from PATCH_from_terminal_status_succeeds [OF h1 h2 h3 h4 h5 h6 h7 h8 h9,
      where nts = None and rc = None and now = 100 and notify = notify_ok]
  show ?thesis using h1 by (auto simp add: patch_body1_def p)
qed

section \<open>The item of a cancelled rental\<close>

text \<open>C2, as stated, fails. A PENDING rental does not hold its item: the item can be in
  calibration when the rental is cancelled. The delete handler resets the item only when
  it is RENTED, so the rental is CANCELLED and the item stays IN_CALIBRATION.\<close>

theorem DELETE_rental_item_in_calibration_kept:
  "rental_status (rental1 PENDING) = PENDING
   \<and> fst (DELETE_rental (Some payload1) ''r-1'' 100 (store1 PENDING IN_CALIBRATION)) =
       Json_ok ((rental1 PENDING)\<lparr>rental_status := CANCELLED\<rparr>)
   \<and> items (snd (DELETE_rental (Some payload1) ''r-1'' 100 (store1 PENDING IN_CALIBRATION)))
        ''SN-001'' = Some (item1 IN_CALIBRATION)
   \<and> item_status (item1 IN_CALIBRATION) \<noteq> AVAILABLE"
  by (simp add: DELETE_rental_def DELETE_rental_tx_def db_defs example_defs
        rental_findUnique_def RequestStatus_of_def Let_def)

text \<open>C2, amended. When a rental is set to CANCELLED by PATCH /api/admin/rentals/[id], the
  transaction sets the status of its item to AVAILABLE. When it is cancelled by DELETE
  /api/admin/rentals/[id], the item is AVAILABLE afterwards if it was RENTED, and is left
  as it was otherwise. (The rows referred to are taken to exist.)\<close>

theorem cancel_sets_item_available:
  assumes "rentals s rid = Some r"
    and "items s (itemSerial r) = Some it"
    and "ap_userId p \<in> users s" and "userId r \<in> users s"
    and "ib_status body = Some ''CANCELLED''"
  shows "(\<exists>r' s'.
            transaction (PATCH_rental_tx rid body (ap_userId p) r (Some it) now) s = (Inr r', s')
          \<and> rental_status r' = CANCELLED \<and> rentals s' rid = Some r'
          \<and> items s' (itemSerial r) = Some (it\<lparr>item_status := AVAILABLE\<rparr>))
     \<and> (\<exists>r' s'.
            DELETE_rental (Some p) rid now s = (Json_ok r', s')
          \<and> rental_status r' = CANCELLED \<and> rentals s' rid = Some r'
          \<and> items s' (itemSerial r) =
              Some (if item_status it = RENTED then it\<lparr>item_status := AVAILABLE\<rparr> else it))"
proof -
  have st: "ib_status body = Some (RequestStatus_name CANCELLED)"
    using assms(5) by simp
  note tx_id = PATCH_rental_tx_ok [OF assms(1) assms(2) assms(3) assms(4) st]
  note tx_del = DELETE_rental_tx_ok [OF assms(1) assms(2) assms(3) assms(4)]
  note run_del = DELETE_rental_unfold [OF assms(1)]
  have "\<exists>r' s'.
            transaction (PATCH_rental_tx rid body (ap_userId p) r (Some it) now) s = (Inr r', s')
          \<and> rental_status r' = CANCELLED \<and> rentals s' rid = Some r'
          \<and> items s' (itemSerial r) = Some (it\<lparr>item_status := AVAILABLE\<rparr>)"
    by (simp add: tx_id)
  moreover have "\<exists>r' s'.
            DELETE_rental (Some p) rid now s = (Json_ok r', s')
          \<and> rental_status r' = CANCELLED \<and> rentals s' rid = Some r'
          \<and> items s' (itemSerial r) =
              Some (if item_status it = RENTED then it\<lparr>item_status := AVAILABLE\<rparr> else it)"
    by (simp add: run_del assms(2) tx_del)
  ultimately show ?thesis by blast
qed

theorem cancel_sets_item_available_witness:
  "items (snd (transaction (PATCH_rental_tx ''r-1'' (patch_by_id_body1 ''CANCELLED'') ''admin-1''
            (rental1 APPROVED) (Some (item1 RENTED)) 100) (store1 APPROVED RENTED))) ''SN-001''
     = Some (item1 AVAILABLE)
   \<and> items (snd (DELETE_rental (Some payload1) ''r-1'' 100 (store1 APPROVED RENTED))) ''SN-001''
     = Some (item1 AVAILABLE)"
proof -
  have h1: "rentals (store1 APPROVED RENTED) ''r-1'' = Some (rental1 APPROVED)"
    by (simp add: store1_def)
  have h2: "items (store1 APPROVED RENTED) (itemSerial (rental1 APPROVED)) = Some (item1 RENTED)"
    by (simp add: store1_def rental1_def)
  have h3: "ap_userId payload1 \<in> users (store1 APPROVED RENTED)"
    by (simp add: store1_def payload1_def)
  have h4: "userId (rental1 APPROVED) \<in> users (store1 APPROVED RENTED)"
    by (simp add: store1_def rental1_def)
  have h5: "ib_status (patch_by_id_body1 ''CANCELLED'') = Some ''CANCELLED''"
    by (simp add: patch_by_id_body1_def)
  from cancel_sets_item_available [OF h1 h2 h3 h4 h5, of 100]
  show ?thesis
    by (auto simp add: payload1_def rental1_def item1_def)
qed

text \<open>The third way to cancel, PATCH /api/admin/rentals, derives no item status for
  CANCELLED (nor for PENDING): the item keeps its status, RENTED for an approved rental.
  The handler of /api/admin/rentals/[id] has the case that this one lacks.\<close>

lemma PATCH_rentals_CANCELLED_keeps_item:
  assumes "rentals s rid = Some r" and "items s (itemSerial r) = Some it"
    and "adminId \<in> users s" and "userId r \<in> users s"
  shows "items (snd (transaction
           (PATCH_rentals_tx rid ''CANCELLED'' nts rc adminId r now) s)) = items s"
  using PATCH_rentals_tx_ok [OF assms, where t = CANCELLED] by simp

section \<open>Atomicity of the transactions\<close>

text \<open>C3. Each handler makes its writes (the rental row, the row of the item, the status
  log, the activity log) inside one transaction. Whatever the input, the transaction ends
  in one of two ways. Either it throws, and the store is exactly the store before the
  call: the writes made before the failure are undone. Or it commits, and then the
  rental has the new status, one status-log row and one activity-log row for the rental
  have been appended, and the item has the status derived from the new status. The
  handlers of PATCH and POST /api/admin/rentals and of DELETE /api/admin/rentals/[id] write
  nothing outside the transaction when they fail: an error response leaves the store
  unchanged.\<close>

theorem transactions_all_or_nothing:
  "(case transaction (PATCH_rentals_tx rid st nts rc adminId cur now) s of
      (Inl e, s') \<Rightarrow> s' = s
    | (Inr x, s') \<Rightarrow>
        rentals s' rid = Some x \<and> RequestStatus_of st = Some (rental_status x)
      \<and> (\<exists>l. rentalStatusLogs s' = rentalStatusLogs s @ [l] \<and> sl_rentalId l = rid
             \<and> sl_status l = rental_status x \<and> sl_userId l = adminId)
      \<and> (\<exists>a. activityLogs s' = activityLogs s @ [a] \<and> al_rentalId a = Some rid
             \<and> al_userId a = adminId)
      \<and> (st = ''APPROVED'' \<longrightarrow>
            map_option item_status (items s' (itemSerial cur)) = Some RENTED)
      \<and> (st = ''COMPLETED'' \<or> st = ''REJECTED'' \<longrightarrow>
            map_option item_status (items s' (itemSerial cur)) = Some AVAILABLE))
   \<and> (ib_status body = Some st \<and> st \<noteq> [] \<longrightarrow>
       (case transaction (PATCH_rental_tx rid body adminId cur item now) s of
          (Inl e, s') \<Rightarrow> s' = s
        | (Inr x, s') \<Rightarrow>
            rentals s' rid = Some x \<and> RequestStatus_of st = Some (rental_status x)
          \<and> (\<exists>l. rentalStatusLogs s' = rentalStatusLogs s @ [l] \<and> sl_rentalId l = rid
                 \<and> sl_status l = rental_status x \<and> sl_userId l = adminId)
          \<and> (\<exists>a. activityLogs s' = activityLogs s @ [a] \<and> al_rentalId a = Some rid
                 \<and> al_userId a = adminId)
          \<and> (st = ''APPROVED'' \<longrightarrow>
                map_option item_status (items s' (itemSerial cur)) = Some RENTED)
          \<and> (st = ''COMPLETED'' \<or> st = ''REJECTED'' \<or> st = ''CANCELLED'' \<longrightarrow>
                map_option item_status (items s' (itemSerial cur)) = Some AVAILABLE)))
   \<and> (case transaction (DELETE_rental_tx rid adminId cur item now) s of
         (Inl e, s') \<Rightarrow> s' = s
       | (Inr x, s') \<Rightarrow>
           rentals s' rid = Some x \<and> rental_status x = CANCELLED
         \<and> (\<exists>l. rentalStatusLogs s' = rentalStatusLogs s @ [l] \<and> sl_rentalId l = rid
                \<and> sl_status l = rental_status x \<and> sl_userId l = adminId)
         \<and> (\<exists>a. activityLogs s' = activityLogs s @ [a] \<and> al_rentalId a = Some rid
                \<and> al_userId a = adminId)
         \<and> (map_option item_status item = Some RENTED \<longrightarrow>
               map_option item_status (items s' (itemSerial cur)) = Some AVAILABLE)
         \<and> (map_option item_status item \<noteq> Some RENTED \<longrightarrow> items s' = items s))
   \<and> (case transaction (POST_rentals_tx serial adminId qbody it uuid now) s of
         (Inl e, s') \<Rightarrow> s' = s
       | (Inr x, s') \<Rightarrow>
           rentals s' uuid = Some x \<and> rental_status x = APPROVED \<and> rental_id x = uuid
         \<and> (\<exists>l. rentalStatusLogs s' = rentalStatusLogs s @ [l] \<and> sl_rentalId l = uuid
                \<and> sl_status l = rental_status x \<and> sl_userId l = adminId)
         \<and> (\<exists>a. activityLogs s' = activityLogs s @ [a] \<and> al_rentalId a = Some uuid
                \<and> al_userId a = adminId)
         \<and> map_option item_status (items s' serial) = Some RENTED)
   \<and> (\<forall>msg code s'. PATCH_rentals notify user pbody now s = (Json_error msg code, s')
          \<longrightarrow> s' = s)
   \<and> (\<forall>msg code s'. POST_rentals notify user qbody uuid now s = (Json_error msg code, s')
          \<longrightarrow> s' = s)
   \<and> (\<forall>msg code s'. DELETE_rental admin rid now s = (Json_error msg code, s') \<longrightarrow> s' = s)"
proof (intro conjI impI allI)
  show "case transaction (PATCH_rentals_tx rid st nts rc adminId cur now) s of
      (Inl e, s') \<Rightarrow> s' = s
    | (Inr x, s') \<Rightarrow>
        rentals s' rid = Some x \<and> RequestStatus_of st = Some (rental_status x)
      \<and> (\<exists>l. rentalStatusLogs s' = rentalStatusLogs s @ [l] \<and> sl_rentalId l = rid
             \<and> sl_status l = rental_status x \<and> sl_userId l = adminId)
      \<and> (\<exists>a. activityLogs s' = activityLogs s @ [a] \<and> al_rentalId a = Some rid
             \<and> al_userId a = adminId)
      \<and> (st = ''APPROVED'' \<longrightarrow>
            map_option item_status (items s' (itemSerial cur)) = Some RENTED)
      \<and> (st = ''COMPLETED'' \<or> st = ''REJECTED'' \<longrightarrow>
            map_option item_status (items s' (itemSerial cur)) = Some AVAILABLE)"
    unfolding transaction_cases by (rule PATCH_rentals_tx_effects)
next
  assume "ib_status body = Some st \<and> st \<noteq> []"
  then show "case transaction (PATCH_rental_tx rid body adminId cur item now) s of
          (Inl e, s') \<Rightarrow> s' = s
        | (Inr x, s') \<Rightarrow>
            rentals s' rid = Some x \<and> RequestStatus_of st = Some (rental_status x)
          \<and> (\<exists>l. rentalStatusLogs s' = rentalStatusLogs s @ [l] \<and> sl_rentalId l = rid
                 \<and> sl_status l = rental_status x \<and> sl_userId l = adminId)
          \<and> (\<exists>a. activityLogs s' = activityLogs s @ [a] \<and> al_rentalId a = Some rid
                 \<and> al_userId a = adminId)
          \<and> (st = ''APPROVED'' \<longrightarrow>
                map_option item_status (items s' (itemSerial cur)) = Some RENTED)
          \<and> (st = ''COMPLETED'' \<or> st = ''REJECTED'' \<or> st = ''CANCELLED'' \<longrightarrow>
                map_option item_status (items s' (itemSerial cur)) = Some AVAILABLE)"
    unfolding transaction_cases by (intro PATCH_rental_tx_effects) simp_all
next
  show "case transaction (DELETE_rental_tx rid adminId cur item now) s of
         (Inl e, s') \<Rightarrow> s' = s
       | (Inr x, s') \<Rightarrow>
           rentals s' rid = Some x \<and> rental_status x = CANCELLED
         \<and> (\<exists>l. rentalStatusLogs s' = rentalStatusLogs s @ [l] \<and> sl_rentalId l = rid
                \<and> sl_status l = rental_status x \<and> sl_userId l = adminId)
         \<and> (\<exists>a. activityLogs s' = activityLogs s @ [a] \<and> al_rentalId a = Some rid
                \<and> al_userId a = adminId)
         \<and> (map_option item_status item = Some RENTED \<longrightarrow>
               map_option item_status (items s' (itemSerial cur)) = Some AVAILABLE)
         \<and> (map_option item_status item \<noteq> Some RENTED \<longrightarrow> items s' = items s)"
    unfolding transaction_cases by (rule DELETE_rental_tx_effects)
next
  show "case transaction (POST_rentals_tx serial adminId qbody it uuid now) s of
         (Inl e, s') \<Rightarrow> s' = s
       | (Inr x, s') \<Rightarrow>
           rentals s' uuid = Some x \<and> rental_status x = APPROVED \<and> rental_id x = uuid
         \<and> (\<exists>l. rentalStatusLogs s' = rentalStatusLogs s @ [l] \<and> sl_rentalId l = uuid
                \<and> sl_status l = rental_status x \<and> sl_userId l = adminId)
         \<and> (\<exists>a. activityLogs s' = activityLogs s @ [a] \<and> al_rentalId a = Some uuid
                \<and> al_userId a = adminId)
         \<and> map_option item_status (items s' serial) = Some RENTED"
    unfolding transaction_cases by (rule POST_rentals_tx_effects)
next
  fix msg code s'
  assume "PATCH_rentals notify user pbody now s = (Json_error msg code, s')"
  then show "s' = s" by (rule PATCH_rentals_error_unchanged)
next
  fix msg code s'
  assume "POST_rentals notify user qbody uuid now s = (Json_error msg code, s')"
  then show "s' = s" by (rule POST_rentals_error_unchanged)
next
  fix msg code s'
  assume "DELETE_rental admin rid now s = (Json_error msg code, s')"
  then show "s' = s" by (rule DELETE_rental_error_unchanged)
qed

text \<open>A session whose user row is gone approves \<open>r-1\<close>: the body of the transaction has
  updated the rental when the insert of the status log violates the foreign key; the
  transaction undoes the update and the handler answers 500 with the store unchanged.\<close>

theorem transactions_all_or_nothing_witness:
  "fst (PATCH_rentals_tx ''r-1'' ''APPROVED'' None None ''ghost'' (rental1 PENDING) 100
          (store1 PENDING AVAILABLE)) = Inl ForeignKeyViolation
   \<and> rentals (snd (PATCH_rentals_tx ''r-1'' ''APPROVED'' None None ''ghost'' (rental1 PENDING) 100
          (store1 PENDING AVAILABLE))) ''r-1'' = Some ((rental1 PENDING)\<lparr>rental_status := APPROVED\<rparr>)
   \<and> transaction (PATCH_rentals_tx ''r-1'' ''APPROVED'' None None ''ghost'' (rental1 PENDING) 100)
          (store1 PENDING AVAILABLE) = (Inl ForeignKeyViolation, store1 PENDING AVAILABLE)
   \<and> PATCH_rentals notify_ok (Some \<lparr>au_id = ''ghost'', au_role = ADMIN\<rparr>)
          (patch_body1 ''APPROVED'') 100 (store1 PENDING AVAILABLE)
       = (Json_error ''Failed to update rental status'' 500, store1 PENDING AVAILABLE)"
proof -
  have run: "PATCH_rentals_tx ''r-1'' ''APPROVED'' None None ''ghost'' (rental1 PENDING) 100
          (store1 PENDING AVAILABLE)
       = (Inl ForeignKeyViolation,
          (store1 PENDING AVAILABLE)\<lparr>rentals :=
             [''r-1'' \<mapsto> (rental1 PENDING)\<lparr>rental_status := APPROVED\<rparr>]\<rparr>)"
    by (simp add: PATCH_rentals_tx_def db_defs example_defs truthy_def or_else_def
          RequestStatus_of_def Let_def)
  have tx: "fst (transaction (PATCH_rentals_tx ''r-1'' ''APPROVED'' None None ''ghost''
          (rental1 PENDING) 100) (store1 PENDING AVAILABLE)) = Inl ForeignKeyViolation"
    by (simp add: transaction_def run)
  note all = transactions_all_or_nothing [where rid = "''r-1''" and st = "''APPROVED''"
      and nts = None and rc = None and adminId = "''ghost''" and cur = "rental1 PENDING"
      and now = 100 and s = "store1 PENDING AVAILABLE" and notify = notify_ok
      and user = "Some \<lparr>au_id = ''ghost'', au_role = ADMIN\<rparr>"
      and pbody = "patch_body1 ''APPROVED''"]
  from all [THEN conjunct1] tx
  have undone: "snd (transaction (PATCH_rentals_tx ''r-1'' ''APPROVED'' None None ''ghost''
          (rental1 PENDING) 100) (store1 PENDING AVAILABLE)) = store1 PENDING AVAILABLE"
    by (auto split: prod.splits sum.splits)
  from all [THEN conjunct2, THEN conjunct2, THEN conjunct2, THEN conjunct2, THEN conjunct1]
  have err: "\<forall>msg code s'. PATCH_rentals notify_ok (Some \<lparr>au_id = ''ghost'', au_role = ADMIN\<rparr>)
          (patch_body1 ''APPROVED'') 100 (store1 PENDING AVAILABLE) = (Json_error msg code, s')
          \<longrightarrow> s' = store1 PENDING AVAILABLE" .
  have g: "isAdmin \<lparr>au_id = ''ghost'', au_role = ADMIN\<rparr>"
    by (simp add: isAdmin_def)
  have h: "rentals (store1 PENDING AVAILABLE) ''r-1'' = Some (rental1 PENDING)"
    by (simp add: store1_def)
  have resp: "fst (PATCH_rentals notify_ok (Some \<lparr>au_id = ''ghost'', au_role = ADMIN\<rparr>)
          (patch_body1 ''APPROVED'') 100 (store1 PENDING AVAILABLE))
       = Json_error ''Failed to update rental status'' 500"
    by (simp add: patch_body1_def PATCH_rentals_unfold [OF g _ _ h] transaction_def run)
  from err resp have "snd (PATCH_rentals notify_ok (Some \<lparr>au_id = ''ghost'', au_role = ADMIN\<rparr>)
          (patch_body1 ''APPROVED'') 100 (store1 PENDING AVAILABLE)) = store1 PENDING AVAILABLE"
    by (metis prod.collapse)
  with resp tx undone run show ?thesis
    by (simp add: prod_eq_iff)
qed

section \<open>Approving a pending rental\<close>

text \<open>C4. When an administrator approves a PENDING rental, the transaction commits with
  the rental APPROVED, the item of the rental RENTED, exactly one row appended to the
  status log (status APPROVED, for this rental) and exactly one row appended to the
  activity log (referring to this rental); PATCH /api/admin/rentals answers with the
  updated rental and then starts the notification on the committed store. The same holds
  of the transaction of PATCH /api/admin/rentals/[id]. (The rows referred to are taken to
  exist.)\<close>

theorem approve_pending_rental:
  assumes "rental_status r = PENDING"
    and "rentals s rid = Some r" and "rid \<noteq> []"
    and "items s (itemSerial r) = Some it"
    and "isAdmin u" and "au_id u \<in> users s" and "ap_userId p \<in> users s"
    and "userId r \<in> users s"
    and "ib_status body = Some ''APPROVED''"
  shows "(\<exists>r' s'.
            transaction (PATCH_rentals_tx rid ''APPROVED'' nts rc (au_id u) r now) s = (Inr r', s')
          \<and> PATCH_rentals notify (Some u)
               \<lparr>pb_id = Some rid, pb_status = Some ''APPROVED'', pb_notes = nts,
                pb_returnCondition = rc\<rparr> now s
              = (Json_ok r', snd (notify rid ''RENTAL'' s'))
          \<and> rental_status r' = APPROVED \<and> rentals s' = (rentals s)(rid \<mapsto> r')
          \<and> items s' = (items s)(itemSerial r \<mapsto> it\<lparr>item_status := RENTED\<rparr>)
          \<and> rentalStatusLogs s' = rentalStatusLogs s @
               [\<lparr>sl_rentalId = rid, sl_status = APPROVED,
                 sl_notes = Some (or_else nts ''Status changed to APPROVED''),
                 sl_userId = au_id u, sl_createdAt = now\<rparr>]
          \<and> activityLogs s' = activityLogs s @
               [\<lparr>al_type = RENTAL_UPDATED, al_action = ''Updated rental status to APPROVED'',
                 al_userId = au_id u, al_itemSerial = Some (itemSerial r), al_rentalId = Some rid,
                 al_affectedUserId = Some (userId r), al_customerId = None,
                 al_createdAt = now\<rparr>])
     \<and> (\<exists>r' s'.
            transaction (PATCH_rental_tx rid body (ap_userId p) r (Some it) now) s = (Inr r', s')
          \<and> rental_status r' = APPROVED \<and> rentals s' = (rentals s)(rid \<mapsto> r')
          \<and> items s' = (items s)(itemSerial r \<mapsto> it\<lparr>item_status := RENTED\<rparr>)
          \<and> rentalStatusLogs s' = rentalStatusLogs s @
               [\<lparr>sl_rentalId = rid, sl_status = APPROVED,
                 sl_notes = Some (or_else (ib_notes body) ''Status updated to APPROVED by admin''),
                 sl_userId = ap_userId p, sl_createdAt = now\<rparr>]
          \<and> activityLogs s' = activityLogs s @
               [\<lparr>al_type = RENTAL_UPDATED, al_action = ''Updated rental status to APPROVED'',
                 al_userId = ap_userId p, al_itemSerial = Some (itemSerial r),
                 al_rentalId = Some rid, al_affectedUserId = Some (userId r),
                 al_customerId = None, al_createdAt = now\<rparr>])"
proof -
  have st: "ib_status body = Some (RequestStatus_name APPROVED)"
    using assms(9) by simp
  note tx = PATCH_rentals_tx_ok [OF assms(2) assms(4) assms(6) assms(8),
      where t = APPROVED, simplified]
  have ne: "''APPROVED'' \<noteq> []" by simp
  note run = PATCH_rentals_unfold [OF assms(5) assms(3) ne assms(2)]
  note tx_id = PATCH_rental_tx_ok [OF assms(2) assms(4) assms(7) assms(8) st, simplified]
  have "\<exists>r' s'.
            transaction (PATCH_rentals_tx rid ''APPROVED'' nts rc (au_id u) r now) s = (Inr r', s')
          \<and> PATCH_rentals notify (Some u)
               \<lparr>pb_id = Some rid, pb_status = Some ''APPROVED'', pb_notes = nts,
                pb_returnCondition = rc\<rparr> now s
              = (Json_ok r', snd (notify rid ''RENTAL'' s'))
          \<and> rental_status r' = APPROVED \<and> rentals s' = (rentals s)(rid \<mapsto> r')
          \<and> items s' = (items s)(itemSerial r \<mapsto> it\<lparr>item_status := RENTED\<rparr>)
          \<and> rentalStatusLogs s' = rentalStatusLogs s @
               [\<lparr>sl_rentalId = rid, sl_status = APPROVED,
                 sl_notes = Some (or_else nts ''Status changed to APPROVED''),
                 sl_userId = au_id u, sl_createdAt = now\<rparr>]
          \<and> activityLogs s' = activityLogs s @
               [\<lparr>al_type = RENTAL_UPDATED, al_action = ''Updated rental status to APPROVED'',
                 al_userId = au_id u, al_itemSerial = Some (itemSerial r), al_rentalId = Some rid,
                 al_affectedUserId = Some (userId r), al_customerId = None,
                 al_createdAt = now\<rparr>]"
    by (simp add: run tx)
  moreover have "\<exists>r' s'.
            transaction (PATCH_rental_tx rid body (ap_userId p) r (Some it) now) s = (Inr r', s')
          \<and> rental_status r' = APPROVED \<and> rentals s' = (rentals s)(rid \<mapsto> r')
          \<and> items s' = (items s)(itemSerial r \<mapsto> it\<lparr>item_status := RENTED\<rparr>)
          \<and> rentalStatusLogs s' = rentalStatusLogs s @
               [\<lparr>sl_rentalId = rid, sl_status = APPROVED,
                 sl_notes = Some (or_else (ib_notes body) ''Status updated to APPROVED by admin''),
                 sl_userId = ap_userId p, sl_createdAt = now\<rparr>]
          \<and> activityLogs s' = activityLogs s @
               [\<lparr>al_type = RENTAL_UPDATED, al_action = ''Updated rental status to APPROVED'',
                 al_userId = ap_userId p, al_itemSerial = Some (itemSerial r),
                 al_rentalId = Some rid, al_affectedUserId = Some (userId r),
                 al_customerId = None, al_createdAt = now\<rparr>]"
    by (simp add: tx_id)
  ultimately show ?thesis by blast
qed

theorem approve_pending_rental_witness:
  "rental_status (rental1 PENDING) = PENDING
   \<and> fst (PATCH_rentals notify_ok (Some admin1) (patch_body1 ''APPROVED'') 100
            (store1 PENDING AVAILABLE)) = Json_ok ((rental1 PENDING)\<lparr>rental_status := APPROVED\<rparr>)
   \<and> items (snd (PATCH_rentals notify_ok (Some admin1) (patch_body1 ''APPROVED'') 100
            (store1 PENDING AVAILABLE))) ''SN-001'' = Some (item1 RENTED)
   \<and> rentalStatusLogs (snd (PATCH_rentals notify_ok (Some admin1) (patch_body1 ''APPROVED'') 100
            (store1 PENDING AVAILABLE))) =
       [\<lparr>sl_rentalId = ''r-1'', sl_status = APPROVED,
         sl_notes = Some ''Status changed to APPROVED'', sl_userId = ''admin-1'',
         sl_createdAt = 100\<rparr>]
   \<and> activityLogs (snd (PATCH_rentals notify_ok (Some admin1) (patch_body1 ''APPROVED'') 100
            (store1 PENDING AVAILABLE))) =
       [\<lparr>al_type = RENTAL_UPDATED, al_action = ''Updated rental status to APPROVED'',
         al_userId = ''admin-1'', al_itemSerial = Some ''SN-001'', al_rentalId = Some ''r-1'',
         al_affectedUserId = Some ''user-1'', al_customerId = None, al_createdAt = 100\<rparr>]"
proof -
  have h1: "rental_status (rental1 PENDING) = PENDING"
    by (simp add: rental1_def)
  have h2: "rentals (store1 PENDING AVAILABLE) ''r-1'' = Some (rental1 PENDING)"
    by (simp add: store1_def)
  have h3: "''r-1'' \<noteq> []" by simp
  have h4: "items (store1 PENDING AVAILABLE) (itemSerial (rental1 PENDING))
              = Some (item1 AVAILABLE)"
    by (simp add: store1_def rental1_def)
  have h5: "isAdmin admin1" by (simp add: isAdmin_def admin1_def)
  have h6: "au_id admin1 \<in> users (store1 PENDING AVAILABLE)"
    by (simp add: store1_def admin1_def)
  have h7: "ap_userId payload1 \<in> users (store1 PENDING AVAILABLE)"
    by (simp add: store1_def payload1_def)
  have h8: "userId (rental1 PENDING) \<in> users (store1 PENDING AVAILABLE)"
    by (simp add: store1_def rental1_def)
  have h9: "ib_status (patch_by_id_body1 ''APPROVED'') = Some ''APPROVED''"
    by (simp add: patch_by_id_body1_def)
  have run: "transaction (PATCH_rentals_tx ''r-1'' ''APPROVED'' None None (au_id admin1)
          (rental1 PENDING) 100) (store1 PENDING AVAILABLE)
       = (Inr ((rental1 PENDING)\<lparr>rental_status := APPROVED\<rparr>),
          snd (transaction (PATCH_rentals_tx ''r-1'' ''APPROVED'' None None (au_id admin1)
          (rental1 PENDING) 100) (store1 PENDING AVAILABLE)))"
    using PATCH_rentals_tx_ok [OF h2 h4 h6 h8, where t = APPROVED and nts = None and rc = None
        and now = 100]
    by (simp add: truthy_def)
  from approve_pending_rental [OF h1 h2 h3 h4 h5 h6 h7 h8 h9,
      where nts = None and rc = None and now = 100 and notify = notify_ok]
  show ?thesis using h1 run
    by (auto simp add: patch_body1_def notify_ok_def ret_def or_else_def store1_def item1_def
          admin1_def rental1_def)
qed

section \<open>Completing a rental\<close>

text \<open>C5 holds of PATCH /api/admin/rentals and fails of PATCH /api/admin/rentals/[id]. An
  APPROVED rental with no return date and an open history row (action RENTED, related to
  the rental, no end date) is completed through the by-id handler: the return date is
  stamped, but the history row is still open afterwards, because that transaction never
  writes to the item history. The same request through PATCH /api/admin/rentals closes the
  row.\<close>

theorem PATCH_rental_completed_history_left_open:
  "fst (PATCH_rental log_ok notify_ok (Some payload1) ''r-1''
          (patch_by_id_body1 ''COMPLETED'') 100 (store1 APPROVED RENTED)) =
     Json_ok ((rental1 APPROVED)\<lparr>rental_status := COMPLETED, returnDate := Some 100\<rparr>)
   \<and> itemHistories (store1 APPROVED RENTED) = [history1]
   \<and> ih_action history1 = ''RENTED'' \<and> ih_relatedId history1 = Some ''r-1''
   \<and> ih_endDate history1 = None
   \<and> itemHistories (snd (transaction (PATCH_rental_tx ''r-1'' (patch_by_id_body1 ''COMPLETED'')
          ''admin-1'' (rental1 APPROVED) (Some (item1 RENTED)) 100) (store1 APPROVED RENTED)))
       = [history1]
   \<and> itemHistories (snd (PATCH_rental log_ok notify_ok (Some payload1) ''r-1''
          (patch_by_id_body1 ''COMPLETED'') 100 (store1 APPROVED RENTED))) = [history1]
   \<and> itemHistories (snd (PATCH_rentals notify_ok (Some admin1) (patch_body1 ''COMPLETED'') 100
          (store1 APPROVED RENTED))) = [history1\<lparr>ih_endDate := Some 100\<rparr>]"
  by (simp add: PATCH_rental_def PATCH_rental_tx_def updateData_def PATCH_rentals_def
        PATCH_rentals_tx_def log_ok_def db_defs example_defs isAdmin_def truthy_def
        or_else_def template_def rental_findUnique_def RequestStatus_of_def
        itemHistory_close_def Let_def)

text \<open>Read off the run above: after the by-id PATCH the only history row of the item has no
  end date.\<close>

theorem PATCH_rental_completed_history_left_open_witness:
  "map ih_endDate (itemHistories (snd (PATCH_rental log_ok notify_ok
      (Some payload1) ''r-1'' (patch_by_id_body1 ''COMPLETED'') 100 (store1 APPROVED RENTED))))
     = [None]"
  using PATCH_rental_completed_history_left_open by simp

text \<open>What PATCH /api/admin/rentals does on COMPLETED: a rental without a return date gets
  the time of the transition, a rental with one keeps it, and every open RENTED history
  row of the rental is closed at that time.\<close>

lemma PATCH_rentals_completed:
  assumes "rentals s rid = Some r" and "items s (itemSerial r) = Some it"
    and "adminId \<in> users s" and "userId r \<in> users s"
  shows "\<exists>r' s'.
      transaction (PATCH_rentals_tx rid ''COMPLETED'' nts rc adminId r now) s = (Inr r', s')
    \<and> returnDate r' = (case returnDate r of None \<Rightarrow> Some now | Some d \<Rightarrow> Some d)
    \<and> itemHistories s' = map (itemHistory_close (itemSerial r) rid now) (itemHistories s)"
  using PATCH_rentals_tx_ok [OF assms, where t = COMPLETED, simplified]
  by (auto split: option.splits)

lemma PATCH_rental_tx_keeps_histories:
  "on_return (PATCH_rental_tx rid body adminId cur item now) s (\<lambda>x s'.
      itemHistories s' = itemHistories s)"
  by (cases "ib_status body")
     (auto simp add: PATCH_rental_tx_def updateData_def truthy_def Let_def)

section \<open>The log rows of a transition\<close>



section \<open>Creating a rental of an item that is not available\<close>

text \<open>C7. A POST for an item whose status is not AVAILABLE fails and leaves the store as
  it was, whoever the caller is and whatever else the body holds: no rental, status log or
  activity log is written, the item is not touched and the notifier is not called. For an
  administrator who gives the serial number and the start date, the error is the 400
  response "Item is not available for rental".\<close>

theorem POST_rentals_item_not_available:
  assumes "qb_itemSerial body = Some serial"
    and "items s serial = Some item"
    and "item_status item \<noteq> AVAILABLE"
  shows "(\<exists>msg code. POST_rentals notify user body uuid now s = (Json_error msg code, s))
    \<and> (user = Some u \<and> isAdmin u \<and> serial \<noteq> [] \<and> qb_startDate body \<noteq> None \<longrightarrow>
         POST_rentals notify user body uuid now s =
           (Json_error ''Item is not available for rental'' 400, s))"
  using assms by (auto simp add: POST_rentals_def truthy_def split: option.splits)

theorem POST_rentals_item_not_available_witness:
  "qb_itemSerial post_body1 = Some ''SN-001''
   \<and> items (store1 PENDING IN_CALIBRATION) ''SN-001'' = Some (item1 IN_CALIBRATION)
   \<and> item_status (item1 IN_CALIBRATION) \<noteq> AVAILABLE
   \<and> POST_rentals notify_ok (Some admin1) post_body1 ''r-2'' 100 (store1 PENDING IN_CALIBRATION) =
       (Json_error ''Item is not available for rental'' 400, store1 PENDING IN_CALIBRATION)"
proof -
  have h1: "qb_itemSerial post_body1 = Some ''SN-001''"
    by (simp add: post_body1_def)
  have h2: "items (store1 PENDING IN_CALIBRATION) ''SN-001'' = Some (item1 IN_CALIBRATION)"
    by (simp add: store1_def)
  have h3: "item_status (item1 IN_CALIBRATION) \<noteq> AVAILABLE"
    by (simp add: item1_def)
  have h4: "isAdmin admin1 \<and> ''SN-001'' \<noteq> [] \<and> qb_startDate post_body1 \<noteq> None"
    by (simp add: isAdmin_def admin1_def post_body1_def)
  from POST_rentals_item_not_available [OF h1 h2 h3, of notify_ok "Some admin1" "''r-2''" 100 admin1] h4
  have "POST_rentals notify_ok (Some admin1) post_body1 ''r-2'' 100 (store1 PENDING IN_CALIBRATION) =
       (Json_error ''Item is not available for rental'' 400, store1 PENDING IN_CALIBRATION)"
    by simp
  with h1 h2 h3 show ?thesis by simp
qed

section \<open>Failure of the notification after the commit\<close>

text \<open>C8. The notifier is any function at all: it may throw, and it may write to the store
  before it does. The response of PATCH and POST /api/admin/rentals is the response they
  give with a notifier that does nothing and returns, and the response of PATCH
  /api/admin/rentals/[id] does not depend on the reminder call either. The store
  afterwards is the committed store, as the notifier left it: the handler undoes nothing.
  The notifier runs only after an answer that is not an error (after a commit), and for
  the PATCH handlers only when the target is APPROVED.\<close>

theorem notification_failure_swallowed:
  "fst (PATCH_rentals notify user pbody now s) = fst (PATCH_rentals notify_ok user pbody now s)
   \<and> snd (PATCH_rentals notify user pbody now s) =
       (if (\<exists>x. fst (PATCH_rentals notify_ok user pbody now s) = Json_ok x)
            \<and> pb_status pbody = Some ''APPROVED''
        then snd (notify (the (pb_id pbody)) ''RENTAL''
                    (snd (PATCH_rentals notify_ok user pbody now s)))
        else snd (PATCH_rentals notify_ok user pbody now s))
   \<and> fst (POST_rentals notify user qbody uuid now s)
       = fst (POST_rentals notify_ok user qbody uuid now s)
   \<and> snd (POST_rentals notify user qbody uuid now s) =
       (if \<exists>x. fst (POST_rentals notify_ok user qbody uuid now s) = Json_ok x
        then snd (notify uuid ''RENTAL'' (snd (POST_rentals notify_ok user qbody uuid now s)))
        else snd (POST_rentals notify_ok user qbody uuid now s))
   \<and> fst (PATCH_rental logger notify admin rid body now s)
       = fst (PATCH_rental logger notify_ok admin rid body now s)
   \<and> snd (PATCH_rental logger notify admin rid body now s) =
       (if (\<exists>x. fst (PATCH_rental logger notify_ok admin rid body now s) = Json_ok x)
            \<and> ib_status body = Some ''APPROVED''
        then snd (notify rid ''APPROVED''
                    (snd (PATCH_rental logger notify_ok admin rid body now s)))
        else snd (PATCH_rental logger notify_ok admin rid body now s))"
proof (intro conjI)
  show "fst (PATCH_rentals notify user pbody now s)
          = fst (PATCH_rentals notify_ok user pbody now s)"
    by (simp add: PATCH_rentals_def Let_def split: option.split prod.split sum.split)
  show "snd (PATCH_rentals notify user pbody now s) =
       (if (\<exists>x. fst (PATCH_rentals notify_ok user pbody now s) = Json_ok x)
            \<and> pb_status pbody = Some ''APPROVED''
        then snd (notify (the (pb_id pbody)) ''RENTAL''
                    (snd (PATCH_rentals notify_ok user pbody now s)))
        else snd (PATCH_rentals notify_ok user pbody now s))"
    by (auto simp add: PATCH_rentals_def Let_def notify_ok_def ret_def truthy_def
          split: option.split prod.split sum.split)
  show "fst (POST_rentals notify user qbody uuid now s)
       = fst (POST_rentals notify_ok user qbody uuid now s)"
    by (rule POST_rentals_outcome [of user qbody uuid now s]) simp_all
  show "snd (POST_rentals notify user qbody uuid now s) =
       (if \<exists>x. fst (POST_rentals notify_ok user qbody uuid now s) = Json_ok x
        then snd (notify uuid ''RENTAL'' (snd (POST_rentals notify_ok user qbody uuid now s)))
        else snd (POST_rentals notify_ok user qbody uuid now s))"
    by (rule POST_rentals_outcome [of user qbody uuid now s])
       (simp_all add: notify_ok_def ret_def)
  show "fst (PATCH_rental logger notify admin rid body now s)
       = fst (PATCH_rental logger notify_ok admin rid body now s)"
    by (simp add: PATCH_rental_def split: option.split prod.split sum.split)
  show "snd (PATCH_rental logger notify admin rid body now s) =
       (if (\<exists>x. fst (PATCH_rental logger notify_ok admin rid body now s) = Json_ok x)
            \<and> ib_status body = Some ''APPROVED''
        then snd (notify rid ''APPROVED''
                    (snd (PATCH_rental logger notify_ok admin rid body now s)))
        else snd (PATCH_rental logger notify_ok admin rid body now s))"
    by (auto simp add: PATCH_rental_def notify_ok_def ret_def
          split: option.split prod.split sum.split)
qed

text \<open>With a notifier that throws, approving \<open>r-1\<close> is answered with the approved rental,
  and the rental stays APPROVED and the item RENTED.\<close>

theorem notification_failure_swallowed_witness:
  "notify_fails ''r-1'' ''RENTAL'' (store1 APPROVED RENTED)
     = (Inl ServiceError, store1 APPROVED RENTED)
   \<and> fst (PATCH_rentals notify_fails (Some admin1) (patch_body1 ''APPROVED'') 100
            (store1 PENDING AVAILABLE)) = Json_ok ((rental1 PENDING)\<lparr>rental_status := APPROVED\<rparr>)
   \<and> rentals (snd (PATCH_rentals notify_fails (Some admin1) (patch_body1 ''APPROVED'') 100
            (store1 PENDING AVAILABLE))) ''r-1''
       = Some ((rental1 PENDING)\<lparr>rental_status := APPROVED\<rparr>)
   \<and> items (snd (PATCH_rentals notify_fails (Some admin1) (patch_body1 ''APPROVED'') 100
            (store1 PENDING AVAILABLE))) ''SN-001'' = Some (item1 RENTED)"
proof -
  have ok: "fst (PATCH_rentals notify_ok (Some admin1) (patch_body1 ''APPROVED'') 100
            (store1 PENDING AVAILABLE))
     = Json_ok ((rental1 PENDING)\<lparr>rental_status := APPROVED\<rparr>)"
    and st: "rentals (snd (PATCH_rentals notify_ok (Some admin1) (patch_body1 ''APPROVED'') 100
            (store1 PENDING AVAILABLE))) ''r-1''
       = Some ((rental1 PENDING)\<lparr>rental_status := APPROVED\<rparr>)"
      "items (snd (PATCH_rentals notify_ok (Some admin1) (patch_body1 ''APPROVED'') 100
            (store1 PENDING AVAILABLE))) ''SN-001'' = Some (item1 RENTED)"
    by (simp_all add: PATCH_rentals_def PATCH_rentals_tx_def db_defs example_defs isAdmin_def
          truthy_def or_else_def rental_findUnique_def RequestStatus_of_def Let_def)
  have f: "snd (notify_fails rid ty t) = t" for rid ty t
    by (simp add: notify_fails_def throw_def)
  have b: "pb_status (patch_body1 ''APPROVED'') = Some ''APPROVED''"
    by (simp add: patch_body1_def)
  from notification_failure_swallowed [where notify = notify_fails and user = "Some admin1"
      and pbody = "patch_body1 ''APPROVED''" and now = 100 and s = "store1 PENDING AVAILABLE",
      THEN conjunct1]
    notification_failure_swallowed [where notify = notify_fails and user = "Some admin1"
      and pbody = "patch_body1 ''APPROVED''" and now = 100 and s = "store1 PENDING AVAILABLE",
      THEN conjunct2, THEN conjunct1]
  show ?thesis using ok st
    by (simp add: f b notify_fails_def throw_def)
qed

section \<open>Creating a rental as administrator\<close>

text \<open>C9. When an administrator creates a rental of an AVAILABLE item (the serial number
  and the start date given, the customer known if one is given, the administrator's user
  row present, the generated id new), one transaction inserts the rental with status
  APPROVED, sets the item to RENTED, appends one status-log row with status APPROVED and
  one activity-log row of type RENTAL_CREATED; the notifier is then called for the new
  rental on the committed store, and the answer is the new rental.\<close>

theorem POST_rentals_auto_approve:
  assumes "isAdmin u" and "au_id u \<in> users s"
    and "qb_itemSerial body = Some serial" and "serial \<noteq> []"
    and "qb_startDate body \<noteq> None"
    and "items s serial = Some item" and "item_status item = AVAILABLE"
    and "fk_ok (or_null (qb_customerId body)) (customers s)"
    and "uuid \<notin> dom (rentals s)"
  shows "\<exists>rental s'.
      transaction (POST_rentals_tx serial (au_id u) body item uuid now) s = (Inr rental, s')
    \<and> POST_rentals notify (Some u) body uuid now s
        = (Json_ok rental, snd (notify uuid ''RENTAL'' s'))
    \<and> rental_id rental = uuid \<and> rental_status rental = APPROVED
    \<and> itemSerial rental = serial \<and> userId rental = au_id u
    \<and> rentals s' = (rentals s)(uuid \<mapsto> rental)
    \<and> items s' = (items s)(serial \<mapsto> item\<lparr>item_status := RENTED\<rparr>)
    \<and> rentalStatusLogs s' = rentalStatusLogs s @
         [\<lparr>sl_rentalId = uuid, sl_status = APPROVED,
           sl_notes = Some ''Rental created and approved by admin'',
           sl_userId = au_id u, sl_createdAt = now\<rparr>]
    \<and> activityLogs s' = activityLogs s @
         [\<lparr>al_type = RENTAL_CREATED,
           al_action = ''Created new rental for '' @ item_name item @
              (if truthy (qb_customerId body) then '' for customer'' else ''''),
           al_userId = au_id u, al_itemSerial = Some serial, al_rentalId = Some uuid,
           al_affectedUserId = Some (au_id u), al_customerId = or_null (qb_customerId body),
           al_createdAt = now\<rparr>]
    \<and> itemHistories s' = itemHistories s"
proof -
  note tx = POST_rentals_tx_ok [OF assms(6) assms(2) assms(9) assms(8)]
  note run = POST_rentals_unfold [OF assms(1) assms(4) assms(3) assms(5) assms(6) assms(7)
      assms(8)]
  show ?thesis by (simp add: run tx)
qed

theorem POST_rentals_auto_approve_witness:
  "item_status (item1 AVAILABLE) = AVAILABLE
   \<and> ''r-2'' \<notin> dom (rentals (store1 COMPLETED AVAILABLE))
   \<and> (\<exists>rental s'.
        POST_rentals notify_ok (Some admin1) post_body1 ''r-2'' 100 (store1 COMPLETED AVAILABLE)
          = (Json_ok rental, s')
      \<and> rental_id rental = ''r-2'' \<and> rental_status rental = APPROVED
      \<and> items s' ''SN-001'' = Some (item1 RENTED)
      \<and> rentalStatusLogs s' =
          [\<lparr>sl_rentalId = ''r-2'', sl_status = APPROVED,
            sl_notes = Some ''Rental created and approved by admin'',
            sl_userId = ''admin-1'', sl_createdAt = 100\<rparr>]
      \<and> activityLogs s' =
          [\<lparr>al_type = RENTAL_CREATED, al_action = ''Created new rental for Gas Detector'',
            al_userId = ''admin-1'', al_itemSerial = Some ''SN-001'', al_rentalId = Some ''r-2'',
            al_affectedUserId = Some ''admin-1'', al_customerId = None, al_createdAt = 100\<rparr>])"
proof -
  have h1: "isAdmin admin1" by (simp add: isAdmin_def admin1_def)
  have h2: "au_id admin1 \<in> users (store1 COMPLETED AVAILABLE)"
    by (simp add: store1_def admin1_def)
  have h3: "qb_itemSerial post_body1 = Some ''SN-001''" by (simp add: post_body1_def)
  have h4: "''SN-001'' \<noteq> []" by simp
  have h5: "qb_startDate post_body1 \<noteq> None" by (simp add: post_body1_def)
  have h6: "items (store1 COMPLETED AVAILABLE) ''SN-001'' = Some (item1 AVAILABLE)"
    by (simp add: store1_def)
  have h7: "item_status (item1 AVAILABLE) = AVAILABLE" by (simp add: item1_def)
  have h8: "fk_ok (or_null (qb_customerId post_body1)) (customers (store1 COMPLETED AVAILABLE))"
    by (simp add: fk_ok_def or_null_def truthy_def post_body1_def)
  have h9: "''r-2'' \<notin> dom (rentals (store1 COMPLETED AVAILABLE))"
    by (simp add: store1_def)
  have a: "au_id admin1 = ''admin-1''" by (simp add: admin1_def)
  have e: "rentalStatusLogs (store1 COMPLETED AVAILABLE) = []"
    "activityLogs (store1 COMPLETED AVAILABLE) = []"
    "truthy (qb_customerId post_body1) = False" "or_null (qb_customerId post_body1) = None"
    "item_name (item1 AVAILABLE) = ''Gas Detector''"
    "(item1 AVAILABLE)\<lparr>item_status := RENTED\<rparr> = item1 RENTED"
    by (simp_all add: store1_def post_body1_def truthy_def or_null_def item1_def)
  from POST_rentals_auto_approve [OF h1 h2 h3 h4 h5 h6 h7 h8 h9,
      where now = 100 and notify = notify_ok]
  show ?thesis using h7 h9
    by (auto simp add: a e notify_ok_def ret_def)
qed

section \<open>Cancelling a rental through DELETE\<close>

text \<open>C10. DELETE /api/admin/rentals/[id] never removes a rental row: whatever the caller
  and the id, the rentals table has the same keys afterwards. When the rental, its item
  and the users referred to exist, the handler answers with the rental, now CANCELLED;
  the store afterwards differs from the store before in exactly this: the rental is
  CANCELLED, one status-log row (CANCELLED) and one activity-log row are appended, and the
  item is AVAILABLE if it was RENTED. An item in any other status keeps its row as it
  was.\<close>

theorem DELETE_rental_cancels:
  "dom (rentals (snd (DELETE_rental user rid now s))) = dom (rentals s)
   \<and> (user = Some p \<and> rentals s rid = Some r \<and> items s (itemSerial r) = Some it
        \<and> ap_userId p \<in> users s \<and> userId r \<in> users s \<longrightarrow>
      DELETE_rental user rid now s =
        (Json_ok (r\<lparr>rental_status := CANCELLED\<rparr>),
         s\<lparr>items := (if item_status it = RENTED
                     then (items s)(itemSerial r \<mapsto> it\<lparr>item_status := AVAILABLE\<rparr>)
                     else items s),
           rentals := (rentals s)(rid \<mapsto> r\<lparr>rental_status := CANCELLED\<rparr>),
           rentalStatusLogs := rentalStatusLogs s @
             [\<lparr>sl_rentalId = rid, sl_status = CANCELLED,
               sl_notes = Some ''Rental cancelled by admin'',
               sl_userId = ap_userId p, sl_createdAt = now\<rparr>],
           activityLogs := activityLogs s @
             [\<lparr>al_type = RENTAL_UPDATED, al_action = ''Cancelled rental for '' @ item_name it,
               al_userId = ap_userId p, al_itemSerial = Some (itemSerial r),
               al_rentalId = Some rid, al_affectedUserId = Some (userId r),
               al_customerId = None, al_createdAt = now\<rparr>]\<rparr>))"
proof (intro conjI impI)
  show "dom (rentals (snd (DELETE_rental user rid now s))) = dom (rentals s)"
  proof (cases user)
    case None
    then show ?thesis by (simp add: DELETE_rental_def)
  next
    case (Some a)
    show ?thesis
    proof (cases "rentals s rid")
      case None
      then show ?thesis by (simp add: DELETE_rental_def rental_findUnique_def Some)
    next
      case found: (Some cur)
      from DELETE_rental_tx_dom [of rid "ap_userId a" cur "items s (itemSerial cur)" now s]
      show ?thesis
        by (auto simp add: Some DELETE_rental_unfold [OF found] on_return_def transaction_def
              split: prod.splits sum.splits)
    qed
  qed
next
  assume a: "user = Some p \<and> rentals s rid = Some r \<and> items s (itemSerial r) = Some it
        \<and> ap_userId p \<in> users s \<and> userId r \<in> users s"
  then have h1: "rentals s rid = Some r" and h2: "items s (itemSerial r) = Some it"
    and h3: "ap_userId p \<in> users s" and h4: "userId r \<in> users s" and u: "user = Some p"
    by simp_all
  show "DELETE_rental user rid now s =
        (Json_ok (r\<lparr>rental_status := CANCELLED\<rparr>),
         s\<lparr>items := (if item_status it = RENTED
                     then (items s)(itemSerial r \<mapsto> it\<lparr>item_status := AVAILABLE\<rparr>)
                     else items s),
           rentals := (rentals s)(rid \<mapsto> r\<lparr>rental_status := CANCELLED\<rparr>),
           rentalStatusLogs := rentalStatusLogs s @
             [\<lparr>sl_rentalId = rid, sl_status = CANCELLED,
               sl_notes = Some ''Rental cancelled by admin'',
               sl_userId = ap_userId p, sl_createdAt = now\<rparr>],
           activityLogs := activityLogs s @
             [\<lparr>al_type = RENTAL_UPDATED, al_action = ''Cancelled rental for '' @ item_name it,
               al_userId = ap_userId p, al_itemSerial = Some (itemSerial r),
               al_rentalId = Some rid, al_affectedUserId = Some (userId r),
               al_customerId = None, al_createdAt = now\<rparr>]\<rparr>)"
    by (simp add: u DELETE_rental_unfold [OF h1] h2 DELETE_rental_tx_ok [OF h1 h2 h3 h4])
qed

text \<open>A PENDING rental of an item in maintenance is cancelled: the row of the rental is
  still there, CANCELLED, and the item is still IN_MAINTENANCE; cancelling an APPROVED
  rental of a RENTED item makes the item AVAILABLE.\<close>

theorem DELETE_rental_cancels_witness:
  "rentals (snd (DELETE_rental (Some payload1) ''r-1'' 100 (store1 PENDING IN_MAINTENANCE)))
      ''r-1'' = Some ((rental1 PENDING)\<lparr>rental_status := CANCELLED\<rparr>)
   \<and> items (snd (DELETE_rental (Some payload1) ''r-1'' 100 (store1 PENDING IN_MAINTENANCE)))
      = items (store1 PENDING IN_MAINTENANCE)
   \<and> items (snd (DELETE_rental (Some payload1) ''r-1'' 100 (store1 APPROVED RENTED)))
      ''SN-001'' = Some (item1 AVAILABLE)"
proof -
  have h: "Some payload1 = Some payload1
      \<and> rentals (store1 rs st) ''r-1'' = Some (rental1 rs)
      \<and> items (store1 rs st) (itemSerial (rental1 rs)) = Some (item1 st)
      \<and> ap_userId payload1 \<in> users (store1 rs st)
      \<and> userId (rental1 rs) \<in> users (store1 rs st)" for rs st
    by (simp add: store1_def rental1_def payload1_def)
  from DELETE_rental_cancels [where user = "Some payload1" and p = payload1
        and rid = "''r-1''" and now = 100 and s = "store1 PENDING IN_MAINTENANCE"
        and r = "rental1 PENDING" and it = "item1 IN_MAINTENANCE", THEN conjunct2, rule_format,
        OF h]
      DELETE_rental_cancels [where user = "Some payload1" and p = payload1
        and rid = "''r-1''" and now = 100 and s = "store1 APPROVED RENTED"
        and r = "rental1 APPROVED" and it = "item1 RENTED", THEN conjunct2, rule_format, OF h]
  show ?thesis
    by (simp add: item1_def rental1_def)
qed

end
